theory Spec2Isabelle
  imports Main "HOL-Library.Word" "HOL-Library.Char_ord" "HOL-Library.List_Lexorder"
begin

section \<open>The composite resource and the static configuration\<close>

text \<open>
  A Go \<open>error\<close> is represented by its message. \<open>errors.Wrapf(err, msg)\<close> puts the
  message in front of the wrapped error's text.
\<close>

type_synonym error = string

definition Wrapf :: "error \<Rightarrow> string \<Rightarrow> error" where
  "Wrapf err msg = msg @ '': '' @ err"

text \<open>
  \<open>xdeployment.XDeployment\<close> as the composers read it: the object name and the spec.
  \<open>Replicas\<close> is a \<open>*int32\<close>, \<open>Port\<close> a \<open>*int\<close>; a nil pointer is \<open>None\<close>.
  \<open>Env\<close> is a Go map; it is kept as the list of its entries in the order in which a
  \<open>range\<close> over it yields them, which Go leaves unspecified. The keys of a map are
  pairwise distinct.
\<close>

record XDeploymentSpec =
  Image :: string
  Replicas :: "32 word option"
  Port :: "64 word option"
  Hostname :: string
  Env :: "(string \<times> string) list"

record XDeployment =
  Name :: string
  Spec :: XDeploymentSpec

record GatewayConfig =
  Gateway_Name :: string
  Gateway_Namespace :: string

record XDeploymentDefaults =
  Gateway :: "GatewayConfig option"

section \<open>The Kubernetes objects the composers build and observe\<close>

record EnvVar =
  EnvVar_Name :: string
  EnvVar_Value :: string

record ContainerPort =
  ContainerPort_Name :: string
  ContainerPort_ContainerPort :: "32 word"

text \<open>
  \<open>Env\<close> is a slice that the code leaves nil or sets: \<open>None\<close> is the nil slice (the
  field is unset, and omitted when the object is serialised), \<open>Some xs\<close> a slice that
  has been made, with the elements \<open>xs\<close>.
\<close>

record Container =
  Container_Name :: string
  Container_Image :: string
  Container_Env :: "EnvVar list option"
  Container_Ports :: "ContainerPort list"

text \<open>A status condition of an observed object: its type and its status, both strings.\<close>

record Condition =
  Condition_Type :: string
  Condition_Status :: string

record appsv1_Deployment =
  dep_Name :: string
  dep_Replicas :: "32 word option"
  dep_MatchLabels :: "(string \<times> string) list"
  dep_TemplateName :: string
  dep_TemplateLabels :: "(string \<times> string) list"
  dep_Containers :: "Container list"
  dep_StatusConditions :: "Condition list"

record ServicePort =
  ServicePort_Name :: string
  ServicePort_Protocol :: string
  ServicePort_Port :: "32 word"
  ServicePort_TargetPort :: "32 word"

record corev1_Service =
  svc_Name :: string
  svc_Type :: string
  svc_Selector :: "(string \<times> string) list"
  svc_Ports :: "ServicePort list"
  svc_ClusterIP :: string

record ParentReference =
  ParentRef_Name :: string
  ParentRef_Namespace :: "string option"

record BackendRef =
  BackendRef_Name :: string
  BackendRef_Port :: "32 word option"

record HTTPRouteRule =
  Rule_BackendRefs :: "BackendRef list"

record RouteParentStatus =
  Parent_Conditions :: "Condition list"

record gwapiv1_HTTPRoute =
  rt_Name :: string
  rt_ParentRefs :: "ParentReference list"
  rt_Hostnames :: "string list"
  rt_Rules :: "HTTPRouteRule list"
  rt_StatusParents :: "RouteParentStatus list"

text \<open>
  A \<open>runtime.Object\<close> interface value: the nil interface, or a pointer of one of the
  three types, which may itself be nil (\<open>None\<close>).
\<close>

datatype runtime_Object =
    NilObject
  | DeploymentObject "appsv1_Deployment option"
  | ServiceObject "corev1_Service option"
  | HTTPRouteObject "gwapiv1_HTTPRoute option"

text \<open>\<open>reflect.ValueOf(x).IsNil()\<close> on a non-nil interface holding a pointer.\<close>

fun IsNil :: "runtime_Object \<Rightarrow> bool" where
  "IsNil NilObject = True"
| "IsNil (DeploymentObject p) = (p = None)"
| "IsNil (ServiceObject p) = (p = None)"
| "IsNil (HTTPRouteObject p) = (p = None)"

text \<open>What \<open>%T\<close> prints for the object.\<close>

fun typeName :: "runtime_Object \<Rightarrow> string" where
  "typeName NilObject = ''<nil>''"
| "typeName (DeploymentObject p) = ''*v1.Deployment''"
| "typeName (ServiceObject p) = ''*v1.Service''"
| "typeName (HTTPRouteObject p) = ''*v1.HTTPRoute''"

section \<open>The function response\<close>

datatype Target = TargetComposite | TargetCompositeAndClaim

datatype Status = StatusTrue | StatusFalse

record fn_Condition =
  Type :: string
  Status :: Status
  Reason :: string
  Message :: "string option"
  Target :: Target

datatype Severity = Fatal | Warning | Normal

record Result =
  Severity :: Severity
  Result_Message :: string

datatype Ready = ReadyUnspecified | ReadyTrue | ReadyFalse

record 'c DesiredComposed =
  Resource :: 'c
  Ready :: Ready

text \<open>
  The desired state carried by a response. \<open>response.To\<close> copies the request's desired
  state as it is (\<open>FromRequest\<close>); \<open>response.SetDesiredComposedResources\<close> replaces the
  composed resources by the map it is given (\<open>Composed\<close>). The SDK serialises the map
  entry by entry and stops at the first entry it cannot serialise, so after a failed call
  the state is not determined by the program (\<open>Undetermined\<close>).
\<close>

datatype 'c DesiredState =
    FromRequest
  | Composed "string \<rightharpoonup> 'c DesiredComposed"
  | Undetermined

record 'c RunFunctionResponse =
  Tag :: string
  Desired :: "'c DesiredState"
  Conditions :: "fn_Condition list"
  Results :: "Result list"

text \<open>The SDK's builders for conditions and results, as \<open>fn.go\<close> uses them.\<close>

definition newCondition :: "string \<Rightarrow> string \<Rightarrow> Status \<Rightarrow> fn_Condition" where
  "newCondition typ reason s =
     \<lparr>Type = typ, Status = s, Reason = reason, Message = None, Target = TargetComposite\<rparr>"

definition WithMessage :: "string \<Rightarrow> fn_Condition \<Rightarrow> fn_Condition" where
  "WithMessage m c = c\<lparr>Message := Some m\<rparr>"

definition addCondition :: "fn_Condition \<Rightarrow> 'c RunFunctionResponse \<Rightarrow> 'c RunFunctionResponse" where
  "addCondition c rsp = rsp\<lparr>Conditions := Conditions rsp @ [c]\<rparr>"

definition response_Fatal :: "'c RunFunctionResponse \<Rightarrow> error \<Rightarrow> 'c RunFunctionResponse" where
  "response_Fatal rsp err =
     rsp\<lparr>Results := Results rsp @ [\<lparr>Severity = Fatal, Result_Message = err\<rparr>]\<rparr>"

definition InternalErrorResponse :: "'c RunFunctionResponse \<Rightarrow> error \<Rightarrow> 'c RunFunctionResponse" where
  "InternalErrorResponse rsp err =
     response_Fatal
       (addCondition
          ((newCondition ''FunctionSuccess'' ''InternalError'' StatusFalse)\<lparr>Target := TargetCompositeAndClaim\<rparr>)
          rsp)
       err"

section \<open>Logging\<close>

text \<open>A log line: its level, its message and the key/value pairs given at the call.\<close>

datatype log_entry =
    Info string "(string \<times> string) list"
  | Debug string "(string \<times> string) list"

section \<open>The composer abstraction (composer.go)\<close>

text \<open>
  \<open>FunctionContext\<close>: the observed resources by name, the composite and the defaults.
  The context's response pointer and logger are the effects of the functions below: the
  response is passed in and returned, the log lines are returned.
\<close>

record 'u XContext =
  Observed :: "string \<rightharpoonup> 'u"
  XR :: XDeployment
  Defaults :: "XDeploymentDefaults option"

record 'u XComposer =
  FunctionContext :: "'u XContext"
  ResourceName :: string
  ConditionType :: string

record 'c DesiredResource =
  DesiredResource_Name :: string
  DesiredResource_Resource :: "'c DesiredComposed"

definition GetConditionType :: "('u, 'z) XComposer_scheme \<Rightarrow> string" where
  "GetConditionType b = ConditionType b"

text \<open>
  \<open>ComposeDesiredResourceFrom\<close>. \<open>from\<close> is \<open>composed.From\<close> of the SDK, which converts
  the typed object or fails.
\<close>

definition ComposeDesiredResourceFrom ::
  "(runtime_Object \<Rightarrow> error + 'c) \<Rightarrow> ('u, 'z) XComposer_scheme \<Rightarrow> runtime_Object \<Rightarrow>
   'c RunFunctionResponse \<Rightarrow> 'c RunFunctionResponse \<times> (error + 'c DesiredResource option)" where
  "ComposeDesiredResourceFrom from b structuredResource rsp =
     (if structuredResource = NilObject \<or> IsNil structuredResource then (rsp, Inr None)
      else case from structuredResource of
        Inl err \<Rightarrow>
          (response_Fatal rsp
             (Wrapf err (''cannot convert '' @ typeName structuredResource @ '' to composed resource'')),
           Inl err)
      | Inr composed \<Rightarrow>
          (rsp,
           Inr (Some \<lparr>DesiredResource_Name = ResourceName b,
                      DesiredResource_Resource = \<lparr>Resource = composed, Ready = ReadyFalse\<rparr>\<rparr>)))"

text \<open>
  \<open>ConvertObserved\<close>. \<open>fromUnstructured\<close> is the conversion of the unstructured content
  into the type asked for (\<open>runtime.DefaultUnstructuredConverter.FromUnstructured\<close>).
\<close>

definition ConvertObserved ::
  "('u \<Rightarrow> error + 't) \<Rightarrow> (string \<rightharpoonup> 'u) \<Rightarrow> string \<Rightarrow> error + 't option" where
  "ConvertObserved fromUnstructured observed resourceName =
     (case observed resourceName of
        Some obs \<Rightarrow>
          (case fromUnstructured obs of
             Inl err \<Rightarrow> Inl err
           | Inr observedResource \<Rightarrow> Inr (Some observedResource))
      | None \<Rightarrow> Inr None)"

section \<open>The deployment composer (fn-deployment.go)\<close>

text \<open>Lookup in a Go map: the zero value when the key is missing.\<close>

definition mapIndex :: "(string \<times> string) list \<Rightarrow> string \<Rightarrow> string" where
  "mapIndex m k = (case map_of m k of Some v \<Rightarrow> v | None \<Rightarrow> [])"

text \<open>
  \<open>convertEnvVars\<close>. For a map of length 0 (empty or nil) it returns nil. Otherwise
  the keys are collected in iteration order and sorted with \<open>sort.Strings\<close>, the bytewise
  lexicographic order of strings, and the result is the slice made from them.
\<close>

definition convertEnvVars :: "(string \<times> string) list \<Rightarrow> EnvVar list option" where
  "convertEnvVars envMap =
     (if length envMap = 0 then None
      else
        let keys = sort (map fst envMap)
        in Some (map (\<lambda>key. \<lparr>EnvVar_Name = key, EnvVar_Value = mapIndex envMap key\<rparr>) keys))"

text \<open>
  The converters of the libraries that the composers call: the typed conversion of an
  unstructured object (\<open>FromUnstructured\<close> at each of the four types), \<open>composed.From\<close>,
  and whether serialising a map of desired resources fails
  (\<open>response.SetDesiredComposedResources\<close>). Their code is outside the repository, so they
  are parameters of the model.
\<close>

record ('x, 'u, 'c) converters =
  toXDeployment :: "'x \<Rightarrow> error + XDeployment"
  toDeployment :: "'u \<Rightarrow> error + appsv1_Deployment"
  toService :: "'u \<Rightarrow> error + corev1_Service"
  toHTTPRoute :: "'u \<Rightarrow> error + gwapiv1_HTTPRoute"
  composed_From :: "runtime_Object \<Rightarrow> error + 'c"
  serialiseError :: "(string \<rightharpoonup> 'c DesiredComposed) \<Rightarrow> error option"

record 'u Deployment = "'u XComposer" +
  Deployment_ObservedResource :: "appsv1_Deployment option"

definition NewDeployment ::
  "('x, 'u, 'c) converters \<Rightarrow> 'u XContext \<Rightarrow> error + 'u Deployment" where
  "NewDeployment cv f =
     (let resourceName = ''xdeployment-deployment-'' @ Name (XR f)
      in case ConvertObserved (toDeployment cv) (Observed f) resourceName of
           Inl err \<Rightarrow> Inl err
         | Inr observedStructured \<Rightarrow>
             Inr \<lparr>FunctionContext = f, ResourceName = resourceName,
                  ConditionType = ''DeploymentReady'',
                  Deployment_ObservedResource = observedStructured\<rparr>)"

text \<open>The loop of \<open>Deployment.IsReady\<close> over the status conditions.\<close>

fun availableIn :: "Condition list \<Rightarrow> bool" where
  "availableIn [] = False"
| "availableIn (condition # rest) =
     (if Condition_Type condition = ''Available'' \<and> Condition_Status condition = ''True''
      then True else availableIn rest)"

definition Deployment_IsReady :: "'u Deployment \<Rightarrow> bool" where
  "Deployment_IsReady d =
     (case Deployment_ObservedResource d of
        None \<Rightarrow> False
      | Some obs \<Rightarrow> availableIn (dep_StatusConditions obs))"

definition Deployment_createResource ::
  "'u Deployment \<Rightarrow> log_entry list \<times> appsv1_Deployment option" where
  "Deployment_createResource d =
     (let xd = XR (FunctionContext d);
          (log, replicas) =
            (case Replicas (Spec xd) of
               None \<Rightarrow>
                 ([Debug ''replicas not set on deployment, defaulting to 2''
                     [(''name'', ResourceName d)]],
                  Some (2 :: 32 word))
             | Some r \<Rightarrow> ([], Some r));
          container =
            \<lparr>Container_Name = Name xd, Container_Image = Image (Spec xd),
             Container_Env = convertEnvVars (Env (Spec xd)), Container_Ports = []\<rparr>;
          container' =
            (case Port (Spec xd) of
               None \<Rightarrow> container
             | Some p \<Rightarrow>
                 container\<lparr>Container_Ports :=
                   [\<lparr>ContainerPort_Name = ''http'', ContainerPort_ContainerPort = ucast p\<rparr>]\<rparr>)
      in (log,
          Some \<lparr>dep_Name = Name xd, dep_Replicas = replicas,
                dep_MatchLabels = [(''app.kubernetes.io/name'', Name xd)],
                dep_TemplateName = Name xd,
                dep_TemplateLabels = [(''app.kubernetes.io/name'', Name xd)],
                dep_Containers = [container'],
                dep_StatusConditions = []\<rparr>))"

definition Deployment_ComposeDesiredResource ::
  "('x, 'u, 'c) converters \<Rightarrow> 'u Deployment \<Rightarrow> 'c RunFunctionResponse \<Rightarrow>
   log_entry list \<times> 'c RunFunctionResponse \<times> (error + 'c DesiredResource option)" where
  "Deployment_ComposeDesiredResource cv d rsp =
     (let (log, built) = Deployment_createResource d
      in (log, ComposeDesiredResourceFrom (composed_From cv) d (DeploymentObject built) rsp))"

section \<open>The service composer\<close>

record 'u Service = "'u XComposer" +
  Service_ObservedResource :: "corev1_Service option"

definition NewService ::
  "('x, 'u, 'c) converters \<Rightarrow> 'u XContext \<Rightarrow> error + 'u Service" where
  "NewService cv f =
     (let resourceName = ''xdeployment-service-'' @ Name (XR f)
      in case ConvertObserved (toService cv) (Observed f) resourceName of
           Inl err \<Rightarrow> Inl err
         | Inr observedStructured \<Rightarrow>
             Inr \<lparr>FunctionContext = f, ResourceName = resourceName,
                  ConditionType = ''ServiceReady'',
                  Service_ObservedResource = observedStructured\<rparr>)"

definition Service_IsReady :: "'u Service \<Rightarrow> bool" where
  "Service_IsReady s =
     (case Service_ObservedResource s of
        None \<Rightarrow> False
      | Some obs \<Rightarrow> svc_ClusterIP obs \<noteq> [])"

definition Service_createResource ::
  "'u Service \<Rightarrow> log_entry list \<times> corev1_Service option" where
  "Service_createResource s =
     (let xd = XR (FunctionContext s)
      in case Port (Spec xd) of
           None \<Rightarrow> ([Debug ''no port found, skipping service'' [(''name'', ResourceName s)]], None)
         | Some p \<Rightarrow>
             ([],
              Some \<lparr>svc_Name = Name xd, svc_Type = ''ClusterIP'',
                    svc_Selector = [(''app.kubernetes.io/name'', Name xd)],
                    svc_Ports =
                      [\<lparr>ServicePort_Name = ''http'', ServicePort_Protocol = ''TCP'',
                        ServicePort_Port = 8080, ServicePort_TargetPort = ucast p\<rparr>],
                    svc_ClusterIP = []\<rparr>))"

definition Service_ComposeDesiredResource ::
  "('x, 'u, 'c) converters \<Rightarrow> 'u Service \<Rightarrow> 'c RunFunctionResponse \<Rightarrow>
   log_entry list \<times> 'c RunFunctionResponse \<times> (error + 'c DesiredResource option)" where
  "Service_ComposeDesiredResource cv s rsp =
     (let (log, built) = Service_createResource s
      in (log, ComposeDesiredResourceFrom (composed_From cv) s (ServiceObject built) rsp))"

section \<open>The HTTP route composer (fn-httproute.go)\<close>

record 'u HttpRoute = "'u XComposer" +
  HttpRoute_ObservedResource :: "gwapiv1_HTTPRoute option"

definition NewHttpRoute ::
  "('x, 'u, 'c) converters \<Rightarrow> 'u XContext \<Rightarrow> error + 'u HttpRoute" where
  "NewHttpRoute cv f =
     (let resourceName = ''xdeployment-httproute-'' @ Name (XR f)
      in case ConvertObserved (toHTTPRoute cv) (Observed f) resourceName of
           Inl err \<Rightarrow> Inl err
         | Inr observedStructured \<Rightarrow>
             Inr \<lparr>FunctionContext = f, ResourceName = resourceName,
                  ConditionType = ''HttpRouteReady'',
                  HttpRoute_ObservedResource = observedStructured\<rparr>)"

text \<open>
  The two nested loops of \<open>HttpRoute.IsReady\<close>: the inner one over the conditions of a
  parent, the outer one over the parents. Each returns at the first match.
\<close>

fun acceptedIn :: "Condition list \<Rightarrow> bool" where
  "acceptedIn [] = False"
| "acceptedIn (condition # rest) =
     (let routeAccepted = (Condition_Type condition = ''Accepted'')
      in if routeAccepted \<and> Condition_Status condition = ''True'' then True
         else acceptedIn rest)"

fun acceptedByParents :: "RouteParentStatus list \<Rightarrow> bool" where
  "acceptedByParents [] = False"
| "acceptedByParents (parent # rest) =
     (if acceptedIn (Parent_Conditions parent) then True else acceptedByParents rest)"

definition HttpRoute_IsReady :: "'u HttpRoute \<Rightarrow> bool" where
  "HttpRoute_IsReady h =
     (case HttpRoute_ObservedResource h of
        None \<Rightarrow> False
      | Some obs \<Rightarrow> acceptedByParents (rt_StatusParents obs))"

definition HttpRoute_createResource ::
  "'u HttpRoute \<Rightarrow> log_entry list \<times> gwapiv1_HTTPRoute option" where
  "HttpRoute_createResource h =
     (let xd = XR (FunctionContext h)
      in case Defaults (FunctionContext h) of
           None \<Rightarrow> ([Debug ''no default values found'' [(''name'', ResourceName h)]], None)
         | Some defaults \<Rightarrow>
        (case Gateway defaults of
           None \<Rightarrow> ([Debug ''no default values found'' [(''name'', ResourceName h)]], None)
         | Some gateway \<Rightarrow>
             if Port (Spec xd) = None \<or> Hostname (Spec xd) = []
             then ([Debug ''no port or hostname specifed, skipping httpRoute''
                      [(''name'', ResourceName h)]], None)
             else
               ([],
                Some \<lparr>rt_Name = Name xd,
                      rt_ParentRefs =
                        [\<lparr>ParentRef_Name = Gateway_Name gateway,
                          ParentRef_Namespace = Some (Gateway_Namespace gateway)\<rparr>],
                      rt_Hostnames = [Hostname (Spec xd)],
                      rt_Rules =
                        [\<lparr>Rule_BackendRefs =
                            [\<lparr>BackendRef_Name = Name xd, BackendRef_Port = Some 8080\<rparr>]\<rparr>],
                      rt_StatusParents = []\<rparr>)))"

definition HttpRoute_ComposeDesiredResource ::
  "('x, 'u, 'c) converters \<Rightarrow> 'u HttpRoute \<Rightarrow> 'c RunFunctionResponse \<Rightarrow>
   log_entry list \<times> 'c RunFunctionResponse \<times> (error + 'c DesiredResource option)" where
  "HttpRoute_ComposeDesiredResource cv h rsp =
     (let (log, built) = HttpRoute_createResource h
      in (log, ComposeDesiredResourceFrom (composed_From cv) h (HTTPRouteObject built) rsp))"

section \<open>The handler (fn.go)\<close>

text \<open>
  The \<open>composer.ComposableResource\<close> interface over the three composers, with the
  dispatch of its three methods.
\<close>

datatype 'u ComposableResource =
    DeploymentComposer "'u Deployment"
  | ServiceComposer "'u Service"
  | HttpRouteComposer "'u HttpRoute"

fun ComposeDesiredResource ::
  "('x, 'u, 'c) converters \<Rightarrow> 'u ComposableResource \<Rightarrow> 'c RunFunctionResponse \<Rightarrow>
   log_entry list \<times> 'c RunFunctionResponse \<times> (error + 'c DesiredResource option)" where
  "ComposeDesiredResource cv (DeploymentComposer d) rsp = Deployment_ComposeDesiredResource cv d rsp"
| "ComposeDesiredResource cv (ServiceComposer s) rsp = Service_ComposeDesiredResource cv s rsp"
| "ComposeDesiredResource cv (HttpRouteComposer h) rsp = HttpRoute_ComposeDesiredResource cv h rsp"

fun IsReady :: "'u ComposableResource \<Rightarrow> bool" where
  "IsReady (DeploymentComposer d) = Deployment_IsReady d"
| "IsReady (ServiceComposer s) = Service_IsReady s"
| "IsReady (HttpRouteComposer h) = HttpRoute_IsReady h"

fun conditionTypeOf :: "'u ComposableResource \<Rightarrow> string" where
  "conditionTypeOf (DeploymentComposer d) = GetConditionType d"
| "conditionTypeOf (ServiceComposer s) = GetConditionType s"
| "conditionTypeOf (HttpRouteComposer h) = GetConditionType h"

text \<open>
  The request, by what each getter of the SDK returns on it: the function input decoded
  into the defaults, the observed composed resources, the desired composed resources and
  the observed composite (still unstructured), each of them or the getter's error.
\<close>

record ('x, 'u, 'c) RunFunctionRequest =
  Meta_Tag :: string
  GetInput :: "error + XDeploymentDefaults"
  GetObservedComposedResources :: "error + (string \<rightharpoonup> 'u)"
  GetDesiredComposedResources :: "error + (string \<rightharpoonup> 'c DesiredComposed)"
  GetObservedCompositeResource :: "error + 'x"

definition response_To :: "('x, 'u, 'c) RunFunctionRequest \<Rightarrow> 'c RunFunctionResponse" where
  "response_To req = \<lparr>Tag = Meta_Tag req, Desired = FromRequest, Conditions = [], Results = []\<rparr>"

definition SetDesiredComposedResources ::
  "('x, 'u, 'c) converters \<Rightarrow> 'c RunFunctionResponse \<Rightarrow> (string \<rightharpoonup> 'c DesiredComposed) \<Rightarrow>
   'c RunFunctionResponse \<times> error option" where
  "SetDesiredComposedResources cv rsp dcds =
     (case serialiseError cv dcds of
        Some err \<Rightarrow> (rsp\<lparr>Desired := Undetermined\<rparr>, Some err)
      | None \<Rightarrow> (rsp\<lparr>Desired := Composed dcds\<rparr>, None))"

text \<open>
  The variables the composer loop of \<open>RunFunction\<close> updates: the response, the map of
  desired resources and the log written so far.
\<close>

record 'c frame =
  frame_rsp :: "'c RunFunctionResponse"
  frame_desired :: "string \<rightharpoonup> 'c DesiredComposed"
  frame_log :: "log_entry list"

text \<open>
  The loop over the composers. A build error leaves the loop with the error (\<open>Inl\<close>)
  and the variables as they are at that point.
\<close>

fun composeEach ::
  "('x, 'u, 'c) converters \<Rightarrow> 'u ComposableResource list \<Rightarrow> 'c frame \<Rightarrow>
   ('c frame \<times> error) + 'c frame" where
  "composeEach cv [] st = Inr st"
| "composeEach cv (r # rest) st =
     (case ComposeDesiredResource cv r (frame_rsp st) of
        (log, rsp, Inl err) \<Rightarrow>
          Inl (st\<lparr>frame_rsp :=
                    addCondition
                      (WithMessage err (newCondition (conditionTypeOf r) ''CompositionError'' StatusFalse))
                      rsp,
                  frame_log := frame_log st @ log\<rparr>,
               err)
      | (log, rsp, Inr None) \<Rightarrow>
          composeEach cv rest (st\<lparr>frame_rsp := rsp, frame_log := frame_log st @ log\<rparr>)
      | (log, rsp, Inr (Some desiredResource)) \<Rightarrow>
          (let (resource, rsp') =
                 (if IsReady r
                  then ((DesiredResource_Resource desiredResource)\<lparr>Ready := ReadyTrue\<rparr>,
                        addCondition (newCondition (conditionTypeOf r) ''Available'' StatusTrue) rsp)
                  else (DesiredResource_Resource desiredResource,
                        addCondition
                          (WithMessage (conditionTypeOf r @ '' is not yet available'')
                             (newCondition (conditionTypeOf r) ''Unavailable'' StatusFalse))
                          rsp))
           in composeEach cv rest
                \<lparr>frame_rsp = rsp',
                 frame_desired =
                   (frame_desired st)(DesiredResource_Name desiredResource \<mapsto> resource),
                 frame_log =
                   frame_log st @ log @
                   [Info ''Added desired resource''
                      [(''name'', DesiredResource_Name desiredResource)]]\<rparr>))"

text \<open>
  What \<open>RunFunction\<close> returns: the response or nil, the error or nil; and the log it
  has written.
\<close>

record 'c returned =
  ret_rsp :: "'c RunFunctionResponse option"
  ret_err :: "error option"
  ret_log :: "log_entry list"

definition RunFunction ::
  "('x, 'u, 'c) converters \<Rightarrow> ('x, 'u, 'c) RunFunctionRequest \<Rightarrow> 'c returned" where
  "RunFunction cv req =
     (let log = [Info ''Running function'' [(''tag'', Meta_Tag req)]];
          rsp = response_To req
      in
      case GetInput req of
        Inl err \<Rightarrow>
          \<lparr>ret_rsp = Some (InternalErrorResponse rsp
                             (Wrapf err ''cannot get Function input from *v1.RunFunctionRequest'')),
           ret_err = None, ret_log = log\<rparr>
      | Inr defaultValues \<Rightarrow>
      (case GetObservedComposedResources req of
        Inl err \<Rightarrow>
          \<lparr>ret_rsp = Some (InternalErrorResponse rsp
                             (Wrapf err ''cannot get observed resources from *v1.RunFunctionRequest'')),
           ret_err = None, ret_log = log\<rparr>
      | Inr observed \<Rightarrow>
      (case GetDesiredComposedResources req of
        Inl err \<Rightarrow>
          \<lparr>ret_rsp = Some (InternalErrorResponse rsp
                             (Wrapf err ''cannot get desired resources from *v1.RunFunctionRequest'')),
           ret_err = None, ret_log = log\<rparr>
      | Inr desired \<Rightarrow>
      (case GetObservedCompositeResource req of
        Inl err \<Rightarrow>
          \<lparr>ret_rsp = Some (InternalErrorResponse rsp
                             (Wrapf err ''cannot get observedf composite resources from *v1.RunFunctionRequest'')),
           ret_err = None, ret_log = log\<rparr>
      | Inr xr \<Rightarrow>
      (case toXDeployment cv xr of
        Inl err \<Rightarrow>
          \<lparr>ret_rsp = Some (InternalErrorResponse rsp
                             (Wrapf err ''cannot convert composite resource to XDeployment'')),
           ret_err = None, ret_log = log\<rparr>
      | Inr xd \<Rightarrow>
      (let fnContext = \<lparr>Observed = observed, XR = xd, Defaults = Some defaultValues\<rparr> in
      (case NewDeployment cv fnContext of
        Inl err \<Rightarrow>
          \<lparr>ret_rsp = Some (response_Fatal rsp (Wrapf err ''cannot create deployment'')),
           ret_err = None, ret_log = log\<rparr>
      | Inr deployment \<Rightarrow>
      (case NewService cv fnContext of
        Inl err \<Rightarrow>
          \<lparr>ret_rsp = Some (response_Fatal rsp (Wrapf err ''cannot create service'')),
           ret_err = None, ret_log = log\<rparr>
      | Inr service \<Rightarrow>
      (case NewHttpRoute cv fnContext of
        Inl err \<Rightarrow>
          \<lparr>ret_rsp = Some (response_Fatal rsp (Wrapf err ''cannot create httpRoute'')),
           ret_err = None, ret_log = log\<rparr>
      | Inr httpRoute \<Rightarrow>
      (let resources =
            [DeploymentComposer deployment, ServiceComposer service, HttpRouteComposer httpRoute]
      in
      (case composeEach cv resources \<lparr>frame_rsp = rsp, frame_desired = desired, frame_log = log\<rparr> of
        Inl (st, err) \<Rightarrow> \<lparr>ret_rsp = None, ret_err = Some err, ret_log = frame_log st\<rparr>
      | Inr st \<Rightarrow>
          (case SetDesiredComposedResources cv (frame_rsp st) (frame_desired st) of
             (rsp', Some err) \<Rightarrow>
               \<lparr>ret_rsp = Some (InternalErrorResponse rsp'
                                  (Wrapf err ''cannot set desired composed resources in *v1.RunFunctionResponse'')),
                ret_err = None, ret_log = frame_log st\<rparr>
           | (rsp', None) \<Rightarrow> \<lparr>ret_rsp = Some rsp', ret_err = None, ret_log = frame_log st\<rparr>))))))))))))"

section \<open>Notions used to state the properties\<close>

text \<open>The resource name held by a composer, and whether its \<open>createResource\<close> builds an object.\<close>

fun resourceNameOf :: "'u ComposableResource \<Rightarrow> string" where
  "resourceNameOf (DeploymentComposer d) = ResourceName d"
| "resourceNameOf (ServiceComposer s) = ResourceName s"
| "resourceNameOf (HttpRouteComposer h) = ResourceName h"

fun builds :: "'u ComposableResource \<Rightarrow> bool" where
  "builds (DeploymentComposer d) = (snd (Deployment_createResource d) \<noteq> None)"
| "builds (ServiceComposer s) = (snd (Service_createResource s) \<noteq> None)"
| "builds (HttpRouteComposer h) = (snd (HttpRoute_createResource h) \<noteq> None)"

text \<open>The object a composer's \<open>createResource\<close> returns, as the interface value handed on.\<close>

fun builtObject :: "'u ComposableResource \<Rightarrow> runtime_Object" where
  "builtObject (DeploymentComposer d) = DeploymentObject (snd (Deployment_createResource d))"
| "builtObject (ServiceComposer s) = ServiceObject (snd (Service_createResource s))"
| "builtObject (HttpRouteComposer h) = HTTPRouteObject (snd (HttpRoute_createResource h))"

text \<open>
  Concrete inputs for the evaluations below, after the requests of \<open>fn_test.go\<close>. An
  unstructured object is the content of a typed object, or content with a field of the
  wrong type. The conversion to a type is lenient, as \<open>FromUnstructured\<close> is: content of
  the type asked for gives the object back, content of another type gives an object with
  the name alone, and only a field of the wrong type is an error. \<open>composed.From\<close> and
  the serialisation succeed.
\<close>

datatype unstructured = Content runtime_Object | WrongFieldType error

fun objectName :: "runtime_Object \<Rightarrow> string" where
  "objectName (DeploymentObject (Some d)) = dep_Name d"
| "objectName (ServiceObject (Some s)) = svc_Name s"
| "objectName (HTTPRouteObject (Some h)) = rt_Name h"
| "objectName other = []"

fun asDeployment :: "unstructured \<Rightarrow> error + appsv1_Deployment" where
  "asDeployment (WrongFieldType err) = Inl err"
| "asDeployment (Content (DeploymentObject (Some d))) = Inr d"
| "asDeployment (Content other) =
     Inr \<lparr>dep_Name = objectName other, dep_Replicas = None, dep_MatchLabels = [],
          dep_TemplateName = [], dep_TemplateLabels = [], dep_Containers = [],
          dep_StatusConditions = []\<rparr>"

fun asService :: "unstructured \<Rightarrow> error + corev1_Service" where
  "asService (WrongFieldType err) = Inl err"
| "asService (Content (ServiceObject (Some s))) = Inr s"
| "asService (Content other) =
     Inr \<lparr>svc_Name = objectName other, svc_Type = [], svc_Selector = [], svc_Ports = [],
          svc_ClusterIP = []\<rparr>"

fun asHTTPRoute :: "unstructured \<Rightarrow> error + gwapiv1_HTTPRoute" where
  "asHTTPRoute (WrongFieldType err) = Inl err"
| "asHTTPRoute (Content (HTTPRouteObject (Some h))) = Inr h"
| "asHTTPRoute (Content other) =
     Inr \<lparr>rt_Name = objectName other, rt_ParentRefs = [], rt_Hostnames = [], rt_Rules = [],
          rt_StatusParents = []\<rparr>"

definition typedConverters :: "(XDeployment, unstructured, runtime_Object) converters" where
  "typedConverters =
     \<lparr>toXDeployment = Inr,
      toDeployment = asDeployment,
      toService = asService,
      toHTTPRoute = asHTTPRoute,
      composed_From = Inr,
      serialiseError = (\<lambda>dcds. None)\<rparr>"

definition testApp :: XDeployment where
  "testApp =
     \<lparr>Name = ''test-app'',
      Spec = \<lparr>Image = ''nginx:latest'', Replicas = None, Port = Some 8080,
              Hostname = ''test.example.com'', Env = []\<rparr>\<rparr>"

definition testDefaults :: XDeploymentDefaults where
  "testDefaults =
     \<lparr>Gateway = Some \<lparr>Gateway_Name = ''my-gateway'', Gateway_Namespace = ''gateway-ns''\<rparr>\<rparr>"

definition testRequest ::
  "XDeployment \<Rightarrow> (string \<rightharpoonup> unstructured) \<Rightarrow> (string \<rightharpoonup> runtime_Object DesiredComposed) \<Rightarrow>
   (XDeployment, unstructured, runtime_Object) RunFunctionRequest" where
  "testRequest xd observed desired =
     \<lparr>Meta_Tag = ''test'',
      GetInput = Inr testDefaults,
      GetObservedComposedResources = Inr observed,
      GetDesiredComposedResources = Inr desired,
      GetObservedCompositeResource = Inr xd\<rparr>"

definition testRoute :: "XDeploymentDefaults option \<Rightarrow> unstructured HttpRoute" where
  "testRoute defaults =
     \<lparr>FunctionContext = \<lparr>Observed = Map.empty, XR = testApp, Defaults = defaults\<rparr>,
      ResourceName = ''xdeployment-httproute-test-app'', ConditionType = ''HttpRouteReady'',
      HttpRoute_ObservedResource = None\<rparr>"

definition availableDeployment :: unstructured where
  "availableDeployment =
     Content (DeploymentObject (Some
       \<lparr>dep_Name = ''test-app'', dep_Replicas = Some 2, dep_MatchLabels = [],
        dep_TemplateName = [], dep_TemplateLabels = [], dep_Containers = [],
        dep_StatusConditions = [\<lparr>Condition_Type = ''Available'', Condition_Status = ''True''\<rparr>]\<rparr>))"







section \<open>Environment variables\<close>

lemma sort_distinct_keys:
  "distinct (ks :: string list) \<Longrightarrow> sort ks = sorted_list_of_set (set ks)"
  by (simp add: sorted_list_of_set_sort_remdups distinct_remdups_id)

lemma mapIndex_present:
  "(k, v) \<in> set env \<Longrightarrow> distinct (map fst env) \<Longrightarrow> mapIndex env k = v"
  by (simp add: mapIndex_def)

lemma convertEnvVars_nil: "convertEnvVars env = None \<longleftrightarrow> env = []"
  by (simp add: convertEnvVars_def Let_def)

text \<open>With distinct keys the result is determined by the entries, not by their order.\<close>

lemma convertEnvVars_canonical:
  assumes "distinct (map fst env)" "env \<noteq> []"
  shows "convertEnvVars env =
         Some (map (\<lambda>k. \<lparr>EnvVar_Name = k, EnvVar_Value = the (map_of env k)\<rparr>)
                 (sorted_list_of_set (fst ` set env)))"
proof -
  have keys: "sort (map fst env) = sorted_list_of_set (fst ` set env)"
    using assms(1) sort_distinct_keys [of "map fst env"] by simp
  have "mapIndex env k = the (map_of env k)" if "k \<in> fst ` set env" for k
  proof -
    from that obtain v where "(k, v) \<in> set env" by auto
    with assms(1) have "map_of env k = Some v" by simp
    then show ?thesis by (simp add: mapIndex_def)
  qed
  then have "map (\<lambda>key. \<lparr>EnvVar_Name = key, EnvVar_Value = mapIndex env key\<rparr>)
               (sorted_list_of_set (fst ` set env)) =
             map (\<lambda>k. \<lparr>EnvVar_Name = k, EnvVar_Value = the (map_of env k)\<rparr>)
               (sorted_list_of_set (fst ` set env))"
    by (intro map_cong) auto
  moreover have "convertEnvVars env =
      Some (map (\<lambda>key. \<lparr>EnvVar_Name = key, EnvVar_Value = mapIndex env key\<rparr>) (sort (map fst env)))"
    using assms(2) by (simp add: convertEnvVars_def Let_def)
  ultimately show ?thesis by (simp only: keys)
qed

lemma convertEnvVars_Some:
  "env \<noteq> [] \<Longrightarrow>
   convertEnvVars env =
     Some (map (\<lambda>key. \<lparr>EnvVar_Name = key, EnvVar_Value = mapIndex env key\<rparr>) (sort (map fst env)))"
  by (simp add: convertEnvVars_def Let_def)

lemma entries_of_sorted_keys:
  assumes "distinct (map fst env)"
  shows "(\<lambda>e. (EnvVar_Name e, EnvVar_Value e)) `
           set (map (\<lambda>key. \<lparr>EnvVar_Name = key, EnvVar_Value = mapIndex env key\<rparr>) (sort (map fst env))) =
         set env"
proof -
  have "(\<lambda>e. (EnvVar_Name e, EnvVar_Value e)) `
           set (map (\<lambda>key. \<lparr>EnvVar_Name = key, EnvVar_Value = mapIndex env key\<rparr>) (sort (map fst env))) =
        (\<lambda>k. (k, mapIndex env k)) ` fst ` set env"
    by (force simp: image_iff)
  also have "\<dots> = set env"
  proof
    show "(\<lambda>k. (k, mapIndex env k)) ` fst ` set env \<subseteq> set env"
      using assms by (auto simp: mapIndex_present)
    show "set env \<subseteq> (\<lambda>k. (k, mapIndex env k)) ` fst ` set env"
    proof
      fix p assume "p \<in> set env"
      then have "(fst p, snd p) \<in> set env" by simp
      with assms have "mapIndex env (fst p) = snd p" by (simp add: mapIndex_present)
      with \<open>p \<in> set env\<close> show "p \<in> (\<lambda>k. (k, mapIndex env k)) ` fst ` set env"
        by (metis (mono_tags, lifting) image_eqI prod.collapse)
    qed
  qed
  finally show ?thesis .
qed

text \<open>
  C4 (as amended). For every env map (its entries in any iteration order, the keys
  distinct) with at least one entry, \<open>convertEnvVars\<close> returns a slice holding exactly the
  entries of the map, in strictly increasing lexicographic order of the keys; any other
  iteration order of the same map gives the same result; the map ZEBRA, ALPHA, BETA gives
  ALPHA, BETA, ZEBRA with their values. For the empty or nil map, and only for it, the
  result is the nil slice. The function has no error result, and the container's \<open>Env\<close>
  is what it returns: unset for a map with no entry.
\<close>

theorem convertEnvVars_sorted_by_key:
  assumes "distinct (map fst env)"
  shows "(env \<noteq> [] \<longrightarrow>
           (\<exists>vars. convertEnvVars env = Some vars
              \<and> sorted_wrt (<) (map EnvVar_Name vars)
              \<and> (\<lambda>e. (EnvVar_Name e, EnvVar_Value e)) ` set vars = set env
              \<and> length vars = length env))
       \<and> (\<forall>env'. distinct (map fst env') \<and> set env' = set env \<longrightarrow>
             convertEnvVars env' = convertEnvVars env)
       \<and> (convertEnvVars env = None \<longleftrightarrow> env = [])
       \<and> convertEnvVars [(''ZEBRA'', ''z''), (''ALPHA'', ''a''), (''BETA'', ''b'')] =
           Some [\<lparr>EnvVar_Name = ''ALPHA'', EnvVar_Value = ''a''\<rparr>,
                 \<lparr>EnvVar_Name = ''BETA'', EnvVar_Value = ''b''\<rparr>,
                 \<lparr>EnvVar_Name = ''ZEBRA'', EnvVar_Value = ''z''\<rparr>]
       \<and> (\<forall>d. Env (Spec (XR (FunctionContext d))) = env \<longrightarrow>
             (\<exists>dep. snd (Deployment_createResource d) = Some dep \<and>
                map Container_Env (dep_Containers dep) = [convertEnvVars env]))"
proof (intro conjI allI impI)
  assume ne: "env \<noteq> []"
  let ?vars = "map (\<lambda>key. \<lparr>EnvVar_Name = key, EnvVar_Value = mapIndex env key\<rparr>) (sort (map fst env))"
  have "distinct (sort (map fst env))" using assms by simp
  then have s: "sorted_wrt (<) (map EnvVar_Name ?vars)"
    by (simp add: comp_def strict_sorted_iff)
  have e: "(\<lambda>e. (EnvVar_Name e, EnvVar_Value e)) ` set ?vars = set env"
    using assms by (rule entries_of_sorted_keys)
  have l: "length ?vars = length env" by simp
  show "\<exists>vars. convertEnvVars env = Some vars
              \<and> sorted_wrt (<) (map EnvVar_Name vars)
              \<and> (\<lambda>e. (EnvVar_Name e, EnvVar_Value e)) ` set vars = set env
              \<and> length vars = length env"
    by (intro exI [of _ ?vars] conjI convertEnvVars_Some [OF ne] s e l)
next
  show "convertEnvVars env = None \<longleftrightarrow> env = []" by (rule convertEnvVars_nil)
  show "convertEnvVars [(''ZEBRA'', ''z''), (''ALPHA'', ''a''), (''BETA'', ''b'')] =
           Some [\<lparr>EnvVar_Name = ''ALPHA'', EnvVar_Value = ''a''\<rparr>,
                 \<lparr>EnvVar_Name = ''BETA'', EnvVar_Value = ''b''\<rparr>,
                 \<lparr>EnvVar_Name = ''ZEBRA'', EnvVar_Value = ''z''\<rparr>]"
    by (simp add: convertEnvVars_def mapIndex_def)
next
  fix env' assume h: "distinct (map fst env') \<and> set env' = set env"
  show "convertEnvVars env' = convertEnvVars env"
  proof (cases "env = []")
    case True
    with h have "env' = []" by simp
    with True show ?thesis by simp
  next
    case False
    with h have ne': "env' \<noteq> []" by auto
    from h assms have "map_of env' = map_of env" by (simp add: map_of_inject_set)
    then show ?thesis
      using h assms False ne' by (simp add: convertEnvVars_canonical)
  qed
next
  fix d :: "'a Deployment"
  assume "Env (Spec (XR (FunctionContext d))) = env"
  then show "\<exists>dep. snd (Deployment_createResource d) = Some dep \<and>
                map Container_Env (dep_Containers dep) = [convertEnvVars env]"
    by (simp add: Deployment_createResource_def Let_def split: option.split)
qed

theorem convertEnvVars_sorted_by_key_witness:
  "distinct (map fst [(''ZEBRA'', ''z''), (''ALPHA'', ''a''), (''BETA'', ''b'')])
   \<and> [(''ZEBRA'', ''z''), (''ALPHA'', ''a''), (''BETA'', ''b'')] \<noteq> []
   \<and> (\<exists>vars. convertEnvVars [(''ZEBRA'', ''z''), (''ALPHA'', ''a''), (''BETA'', ''b'')] = Some vars
         \<and> sorted_wrt (<) (map EnvVar_Name vars)
         \<and> (\<lambda>e. (EnvVar_Name e, EnvVar_Value e)) ` set vars =
             set [(''ZEBRA'', ''z''), (''ALPHA'', ''a''), (''BETA'', ''b'')]
         \<and> length vars = length [(''ZEBRA'', ''z''), (''ALPHA'', ''a''), (''BETA'', ''b'')])
   \<and> convertEnvVars [(''BETA'', ''b''), (''ZEBRA'', ''z''), (''ALPHA'', ''a'')] =
     convertEnvVars [(''ZEBRA'', ''z''), (''ALPHA'', ''a''), (''BETA'', ''b'')]"
proof -
  let ?env = "[(''ZEBRA'', ''z''), (''ALPHA'', ''a''), (''BETA'', ''b'')]"
  have d: "distinct (map fst ?env)" by simp
  have ne: "?env \<noteq> []" by simp
  have d': "distinct (map fst [(''BETA'', ''b''), (''ZEBRA'', ''z''), (''ALPHA'', ''a'')])
            \<and> set [(''BETA'', ''b''), (''ZEBRA'', ''z''), (''ALPHA'', ''a'')] = set ?env"
    by auto
  note T = convertEnvVars_sorted_by_key [OF d]
  note a = T [THEN conjunct1, THEN mp, OF ne]
  note b = T [THEN conjunct2, THEN conjunct1, THEN spec, THEN mp, OF d']
  show ?thesis by (intro conjI d ne a b)
qed

text \<open>
  The claim as stated fails on the empty map: the result is the nil slice, and the
  container built from a spec without env has its \<open>Env\<close> unset.
\<close>

theorem convertEnvVars_sorted_by_key_counterexample:
  "convertEnvVars [] = None
   \<and> map Container_Env
       (case snd (Deployment_createResource
                    \<lparr>FunctionContext = \<lparr>Observed = Map.empty :: string \<rightharpoonup> unstructured, XR = testApp,
                                        Defaults = None\<rparr>,
                     ResourceName = ''xdeployment-deployment-test-app'',
                     ConditionType = ''DeploymentReady'',
                     Deployment_ObservedResource = None\<rparr>) of
          None \<Rightarrow> []
        | Some dep \<Rightarrow> dep_Containers dep) = [None]"
  by (simp add: convertEnvVars_def Deployment_createResource_def testApp_def)

section \<open>Replicas\<close>

text \<open>
  C9. For every spec the deployment composer builds a Deployment whose replica count is
  the spec's \<open>replicas\<close> when that is set, whatever its value (zero and negative values
  included: no bound is checked), and 2 when it is unset.
\<close>

theorem createResource_replicas:
  "\<exists>dep. snd (Deployment_createResource d) = Some dep \<and>
     dep_Replicas dep =
       (case Replicas (Spec (XR (FunctionContext d))) of None \<Rightarrow> Some 2 | Some r \<Rightarrow> Some r)"
  by (simp add: Deployment_createResource_def Let_def split: option.split)

section \<open>Absence at \<open>ComposeDesiredResourceFrom\<close>\<close>

text \<open>
  C10. \<open>ComposeDesiredResourceFrom\<close> answers the nil interface and every interface
  holding a nil pointer alike: no desired resource, no error, and the response untouched,
  whatever \<open>composed.From\<close> would do.
\<close>

theorem ComposeDesiredResourceFrom_nil:
  "structuredResource = NilObject \<or> IsNil structuredResource \<Longrightarrow>
   ComposeDesiredResourceFrom from b structuredResource rsp = (rsp, Inr None)"
  by (auto simp: ComposeDesiredResourceFrom_def)

theorem ComposeDesiredResourceFrom_nil_witness:
  "(ServiceObject None = NilObject \<or> IsNil (ServiceObject None)) \<and>
   ComposeDesiredResourceFrom (\<lambda>obj. Inl ''no kind is registered'')
     \<lparr>FunctionContext = \<lparr>Observed = Map.empty :: string \<rightharpoonup> unit, XR = testApp, Defaults = None\<rparr>,
       ResourceName = ''xdeployment-service-test-app'', ConditionType = ''ServiceReady''\<rparr>
     (ServiceObject None)
     \<lparr>Tag = ''test'', Desired = FromRequest, Conditions = [], Results = []\<rparr> =
   (\<lparr>Tag = ''test'', Desired = FromRequest, Conditions = [], Results = []\<rparr>,
    (Inr None :: error + unit DesiredResource option))"
proof -
  have h: "ServiceObject None = NilObject \<or> IsNil (ServiceObject None)" by simp
  from ComposeDesiredResourceFrom_nil [OF h] h show ?thesis by blast
qed

section \<open>Readiness of the route\<close>

lemma acceptedIn_iff:
  "acceptedIn cs \<longleftrightarrow>
   (\<exists>c \<in> set cs. Condition_Type c = ''Accepted'' \<and> Condition_Status c = ''True'')"
  by (induction cs) (auto simp: Let_def)

lemma acceptedByParents_iff:
  "acceptedByParents ps \<longleftrightarrow> (\<exists>p \<in> set ps. acceptedIn (Parent_Conditions p))"
  by (induction ps) auto

text \<open>
  C8. The route composer is ready exactly when a route has been observed and some parent
  status of it has some condition of type Accepted with status True; with no observed
  route it is not ready.
\<close>

theorem HttpRoute_IsReady_iff:
  "(HttpRoute_IsReady h \<longleftrightarrow>
     (\<exists>obs. HttpRoute_ObservedResource h = Some obs \<and>
        (\<exists>parent \<in> set (rt_StatusParents obs).
           \<exists>condition \<in> set (Parent_Conditions parent).
             Condition_Type condition = ''Accepted'' \<and> Condition_Status condition = ''True'')))
   \<and> \<not> HttpRoute_IsReady (h\<lparr>HttpRoute_ObservedResource := None\<rparr>)"
  by (simp add: HttpRoute_IsReady_def acceptedByParents_iff acceptedIn_iff split: option.split)

section \<open>Resource names\<close>

lemma NewDeployment_ok:
  "NewDeployment cv f = Inr d \<Longrightarrow>
   FunctionContext d = f \<and> ResourceName d = ''xdeployment-deployment-'' @ Name (XR f) \<and>
   ConditionType d = ''DeploymentReady''"
  by (auto simp: NewDeployment_def Let_def split: sum.splits)

lemma NewService_ok:
  "NewService cv f = Inr s \<Longrightarrow>
   FunctionContext s = f \<and> ResourceName s = ''xdeployment-service-'' @ Name (XR f) \<and>
   ConditionType s = ''ServiceReady''"
  by (auto simp: NewService_def Let_def split: sum.splits)

lemma NewHttpRoute_ok:
  "NewHttpRoute cv f = Inr h \<Longrightarrow>
   FunctionContext h = f \<and> ResourceName h = ''xdeployment-httproute-'' @ Name (XR f) \<and>
   ConditionType h = ''HttpRouteReady''"
  by (auto simp: NewHttpRoute_def Let_def split: sum.splits)

text \<open>
  C5. Whenever the three constructors return their composers, the resource names are
  \<open>xdeployment-deployment-\<close>, \<open>xdeployment-service-\<close> and \<open>xdeployment-httproute-\<close>
  followed by the composite's name; any other invocation on a composite of the same name
  (other observed resources, defaults or converters) gives the same three names.
\<close>

theorem resource_names:
  assumes "NewDeployment cv f = Inr d" "NewService cv f = Inr s" "NewHttpRoute cv f = Inr h"
  shows "ResourceName d = ''xdeployment-deployment-'' @ Name (XR f)
       \<and> ResourceName s = ''xdeployment-service-'' @ Name (XR f)
       \<and> ResourceName h = ''xdeployment-httproute-'' @ Name (XR f)
       \<and> (\<forall>cv' f' d' s' h'.
             Name (XR f') = Name (XR f) \<and> NewDeployment cv' f' = Inr d' \<and>
             NewService cv' f' = Inr s' \<and> NewHttpRoute cv' f' = Inr h' \<longrightarrow>
             ResourceName d' = ResourceName d \<and> ResourceName s' = ResourceName s \<and>
             ResourceName h' = ResourceName h)"
proof -
  note n = NewDeployment_ok [OF assms(1)] NewService_ok [OF assms(2)] NewHttpRoute_ok [OF assms(3)]
  show ?thesis
    using n by (auto dest!: NewDeployment_ok NewService_ok NewHttpRoute_ok)
qed

theorem resource_names_witness:
  "NewDeployment typedConverters \<lparr>Observed = Map.empty, XR = testApp, Defaults = Some testDefaults\<rparr> =
     Inr \<lparr>FunctionContext = \<lparr>Observed = Map.empty, XR = testApp, Defaults = Some testDefaults\<rparr>,
          ResourceName = ''xdeployment-deployment-test-app'', ConditionType = ''DeploymentReady'',
          Deployment_ObservedResource = None\<rparr>
   \<and> NewService typedConverters \<lparr>Observed = Map.empty, XR = testApp, Defaults = Some testDefaults\<rparr> =
     Inr \<lparr>FunctionContext = \<lparr>Observed = Map.empty, XR = testApp, Defaults = Some testDefaults\<rparr>,
          ResourceName = ''xdeployment-service-test-app'', ConditionType = ''ServiceReady'',
          Service_ObservedResource = None\<rparr>
   \<and> NewHttpRoute typedConverters \<lparr>Observed = Map.empty, XR = testApp, Defaults = Some testDefaults\<rparr> =
     Inr \<lparr>FunctionContext = \<lparr>Observed = Map.empty, XR = testApp, Defaults = Some testDefaults\<rparr>,
          ResourceName = ''xdeployment-httproute-test-app'', ConditionType = ''HttpRouteReady'',
          HttpRoute_ObservedResource = None\<rparr>
   \<and> ''xdeployment-deployment-test-app'' = ''xdeployment-deployment-'' @ Name testApp
   \<and> ''xdeployment-service-test-app'' = ''xdeployment-service-'' @ Name testApp
   \<and> ''xdeployment-httproute-test-app'' = ''xdeployment-httproute-'' @ Name testApp"
proof -
  let ?f = "\<lparr>Observed = Map.empty :: string \<rightharpoonup> unstructured, XR = testApp, Defaults = Some testDefaults\<rparr>"
  have d: "NewDeployment typedConverters ?f =
     Inr \<lparr>FunctionContext = ?f,
          ResourceName = ''xdeployment-deployment-test-app'', ConditionType = ''DeploymentReady'',
          Deployment_ObservedResource = None\<rparr>"
    by (simp add: NewDeployment_def ConvertObserved_def testApp_def)
  have s: "NewService typedConverters ?f =
     Inr \<lparr>FunctionContext = ?f,
          ResourceName = ''xdeployment-service-test-app'', ConditionType = ''ServiceReady'',
          Service_ObservedResource = None\<rparr>"
    by (simp add: NewService_def ConvertObserved_def testApp_def)
  have h: "NewHttpRoute typedConverters ?f =
     Inr \<lparr>FunctionContext = ?f,
          ResourceName = ''xdeployment-httproute-test-app'', ConditionType = ''HttpRouteReady'',
          HttpRoute_ObservedResource = None\<rparr>"
    by (simp add: NewHttpRoute_def ConvertObserved_def testApp_def)
  from resource_names [OF d s h] d s h show ?thesis by (simp add: testApp_def)
qed

section \<open>The composer loop\<close>

lemma From_ok:
  "ComposeDesiredResourceFrom from b obj rsp = (rsp', Inr x) \<Longrightarrow>
   rsp' = rsp \<and> (x = None \<longleftrightarrow> IsNil obj) \<and>
   (\<forall>dr. x = Some dr \<longrightarrow> DesiredResource_Name dr = ResourceName b \<and>
       Ready (DesiredResource_Resource dr) = ReadyFalse)"
  by (cases obj) (auto simp: ComposeDesiredResourceFrom_def split: if_splits sum.splits)


lemma Compose_ok:
  assumes "ComposeDesiredResource cv r rsp = (log, rsp', Inr x)"
  shows "rsp' = rsp" and "x = None \<longleftrightarrow> \<not> builds r"
    and "x = Some dr \<Longrightarrow> DesiredResource_Name dr = resourceNameOf r"
    and "x = Some dr \<Longrightarrow> Ready (DesiredResource_Resource dr) = ReadyFalse"
  using assms
  by (cases r;
      auto simp: Deployment_ComposeDesiredResource_def Service_ComposeDesiredResource_def
        HttpRoute_ComposeDesiredResource_def split: prod.splits dest!: From_ok)+


lemma composeEach_Cons_absent:
  "ComposeDesiredResource cv r (frame_rsp st) = (log, rsp', Inr None) \<Longrightarrow>
   composeEach cv (r # rest) st =
   composeEach cv rest (st\<lparr>frame_log := frame_log st @ log\<rparr>)"
  by (frule Compose_ok(1)) simp

lemma composeEach_Cons_built:
  assumes "ComposeDesiredResource cv r (frame_rsp st) = (log, rsp', Inr (Some dr))"
  shows "composeEach cv (r # rest) st =
   composeEach cv rest
     \<lparr>frame_rsp =
        addCondition
          (if IsReady r then newCondition (conditionTypeOf r) ''Available'' StatusTrue
           else WithMessage (conditionTypeOf r @ '' is not yet available'')
                  (newCondition (conditionTypeOf r) ''Unavailable'' StatusFalse))
          (frame_rsp st),
      frame_desired =
        (frame_desired st)(resourceNameOf r \<mapsto>
          (DesiredResource_Resource dr)\<lparr>Ready := if IsReady r then ReadyTrue else ReadyFalse\<rparr>),
      frame_log = frame_log st @ log @ [Info ''Added desired resource'' [(''name'', resourceNameOf r)]]\<rparr>"
proof -
  note k = Compose_ok [OF assms]
  have "(DesiredResource_Resource dr)\<lparr>Ready := ReadyFalse\<rparr> = DesiredResource_Resource dr"
    using k(4) [of dr] by simp
  then show ?thesis using assms k(1) k(3) [of dr] by simp
qed

lemma composeEach_ok:
  "composeEach cv rs st = Inr st' \<Longrightarrow>
   Results (frame_rsp st') = Results (frame_rsp st) \<and>
   Desired (frame_rsp st') = Desired (frame_rsp st) \<and>
   Tag (frame_rsp st') = Tag (frame_rsp st) \<and>
   map Type (Conditions (frame_rsp st')) =
     map Type (Conditions (frame_rsp st)) @ map conditionTypeOf (filter builds rs) \<and>
   dom (frame_desired st') = dom (frame_desired st) \<union> resourceNameOf ` {r \<in> set rs. builds r} \<and>
   (\<forall>n. n \<notin> resourceNameOf ` {r \<in> set rs. builds r} \<longrightarrow> frame_desired st' n = frame_desired st n)"
proof (induction rs arbitrary: st)
  case Nil
  then show ?case by simp
next
  case (Cons r rs)
  obtain log rsp' res where c: "ComposeDesiredResource cv r (frame_rsp st) = (log, rsp', res)"
    by (metis prod_cases3)
  show ?case
  proof (cases res)
    case (Inl err)
    with c Cons.prems show ?thesis by simp
  next
    case (Inr x)
    show ?thesis
    proof (cases x)
      case None
      with c Inr have a: "ComposeDesiredResource cv r (frame_rsp st) = (log, rsp', Inr None)" by simp
      from Compose_ok(2) [OF a] have nb: "\<not> builds r" by simp
      from Cons.prems composeEach_Cons_absent [OF a]
      have "composeEach cv rs (st\<lparr>frame_log := frame_log st @ log\<rparr>) = Inr st'" by simp
      from Cons.IH [OF this] nb show ?thesis by auto
    next
      case (Some dr)
      with c Inr have a: "ComposeDesiredResource cv r (frame_rsp st) = (log, rsp', Inr (Some dr))" by simp
      from Compose_ok(2) [OF a] have b: "builds r" by simp
      define c where "c = (if IsReady r then newCondition (conditionTypeOf r) ''Available'' StatusTrue
           else WithMessage (conditionTypeOf r @ '' is not yet available'')
                  (newCondition (conditionTypeOf r) ''Unavailable'' StatusFalse))"
      define v where "v = (DesiredResource_Resource dr)\<lparr>Ready := if IsReady r then ReadyTrue else ReadyFalse\<rparr>"
      define st1 where "st1 = \<lparr>frame_rsp = addCondition c (frame_rsp st),
         frame_desired = (frame_desired st)(resourceNameOf r \<mapsto> v),
         frame_log = frame_log st @ log @ [Info ''Added desired resource'' [(''name'', resourceNameOf r)]]\<rparr>"
      have ct: "Type c = conditionTypeOf r"
        by (simp add: c_def newCondition_def WithMessage_def)
      from Cons.prems composeEach_Cons_built [OF a]
      have "composeEach cv rs st1 = Inr st'"
        by (simp add: st1_def c_def v_def)
      note ih = Cons.IH [OF this]
      have r1: "frame_rsp st1 = addCondition c (frame_rsp st)"
        and d1: "frame_desired st1 = (frame_desired st)(resourceNameOf r \<mapsto> v)"
        by (simp_all add: st1_def)
      have s: "{q \<in> set (r # rs). builds q} = insert r {q \<in> set rs. builds q}"
        using b by auto
      have "Results (frame_rsp st') = Results (frame_rsp st)"
        and "Desired (frame_rsp st') = Desired (frame_rsp st)"
        and "Tag (frame_rsp st') = Tag (frame_rsp st)"
        using ih by (simp_all add: r1 addCondition_def)
      moreover have "map Type (Conditions (frame_rsp st')) =
          map Type (Conditions (frame_rsp st)) @ map conditionTypeOf (filter builds (r # rs))"
        using ih b ct by (simp add: r1 addCondition_def)
      moreover have "dom (frame_desired st') =
          dom (frame_desired st) \<union> resourceNameOf ` {q \<in> set (r # rs). builds q}"
        using ih by (simp only: s d1) auto
      moreover have "frame_desired st' n = frame_desired st n"
        if "n \<notin> resourceNameOf ` {q \<in> set (r # rs). builds q}" for n
      proof -
        from that have "n \<noteq> resourceNameOf r" and "n \<notin> resourceNameOf ` {q \<in> set rs. builds q}"
          by (simp_all only: s) auto
        with ih show ?thesis by (simp add: d1)
      qed
      ultimately show ?thesis by blast
    qed
  qed
qed

section \<open>Invocations that reach the end\<close>

lemma builds_Deployment: "snd (Deployment_createResource d) \<noteq> None"
  by (simp add: Deployment_createResource_def Let_def split: option.split prod.split)

lemma builds_Service:
  "snd (Service_createResource s) \<noteq> None \<longleftrightarrow> Port (Spec (XR (FunctionContext s))) \<noteq> None"
  by (simp add: Service_createResource_def Let_def split: option.split)

lemma builds_HttpRoute:
  "snd (HttpRoute_createResource h) \<noteq> None \<longleftrightarrow>
   Port (Spec (XR (FunctionContext h))) \<noteq> None \<and> Hostname (Spec (XR (FunctionContext h))) \<noteq> [] \<and>
   (\<exists>dv gw. Defaults (FunctionContext h) = Some dv \<and> Gateway dv = Some gw)"
  by (auto simp: HttpRoute_createResource_def Let_def split: option.split)

lemma Results_InternalErrorResponse: "Results (InternalErrorResponse rsp err) \<noteq> []"
  by (simp add: InternalErrorResponse_def response_Fatal_def addCondition_def)

lemma Results_response_Fatal: "Results (response_Fatal rsp err) \<noteq> []"
  by (simp add: response_Fatal_def)

lemma RunFunction_success:
  assumes dec: "GetInput req = Inr dv" "GetObservedComposedResources req = Inr obs"
    "GetDesiredComposedResources req = Inr des" "GetObservedCompositeResource req = Inr xr"
    "toXDeployment cv xr = Inr xd"
    and ok: "ret_rsp (RunFunction cv req) = Some r" "Results r = []"
  shows "\<exists>d s h st.
      NewDeployment cv \<lparr>Observed = obs, XR = xd, Defaults = Some dv\<rparr> = Inr d \<and>
      NewService cv \<lparr>Observed = obs, XR = xd, Defaults = Some dv\<rparr> = Inr s \<and>
      NewHttpRoute cv \<lparr>Observed = obs, XR = xd, Defaults = Some dv\<rparr> = Inr h \<and>
      composeEach cv [DeploymentComposer d, ServiceComposer s, HttpRouteComposer h]
        \<lparr>frame_rsp = response_To req, frame_desired = des,
         frame_log = [Info ''Running function'' [(''tag'', Meta_Tag req)]]\<rparr> = Inr st \<and>
      r = (frame_rsp st)\<lparr>Desired := Composed (frame_desired st)\<rparr>"
proof -
  let ?ctx = "\<lparr>Observed = obs, XR = xd, Defaults = Some dv\<rparr>"
  let ?st0 = "\<lparr>frame_rsp = response_To req, frame_desired = des,
         frame_log = [Info ''Running function'' [(''tag'', Meta_Tag req)]]\<rparr>"
  obtain d where d: "NewDeployment cv ?ctx = Inr d"
    using ok dec
    by (cases "NewDeployment cv ?ctx") (auto simp: RunFunction_def Let_def Results_response_Fatal)
  obtain s where s: "NewService cv ?ctx = Inr s"
    using ok dec d
    by (cases "NewService cv ?ctx") (auto simp: RunFunction_def Let_def Results_response_Fatal)
  obtain h where h: "NewHttpRoute cv ?ctx = Inr h"
    using ok dec d s
    by (cases "NewHttpRoute cv ?ctx") (auto simp: RunFunction_def Let_def Results_response_Fatal)
  let ?rs = "[DeploymentComposer d, ServiceComposer s, HttpRouteComposer h]"
  obtain st where st: "composeEach cv ?rs ?st0 = Inr st"
    using ok dec d s h
    by (cases "composeEach cv ?rs ?st0") (auto simp: RunFunction_def Let_def)
  have "r = (frame_rsp st)\<lparr>Desired := Composed (frame_desired st)\<rparr>"
    using ok dec d s h st
    by (cases "serialiseError cv (frame_desired st)")
       (auto simp: RunFunction_def Let_def SetDesiredComposedResources_def Results_InternalErrorResponse)
  with d s h st show ?thesis by blast
qed

section \<open>Which entries the response holds\<close>

text \<open>The definitions unfolded to evaluate the handler on a concrete request.\<close>

lemmas eval_defs =
  RunFunction_def typedConverters_def testApp_def testRequest_def testDefaults_def response_To_def
  NewDeployment_def NewService_def NewHttpRoute_def ConvertObserved_def
  Deployment_ComposeDesiredResource_def Service_ComposeDesiredResource_def
  HttpRoute_ComposeDesiredResource_def Deployment_createResource_def Service_createResource_def
  HttpRoute_createResource_def ComposeDesiredResourceFrom_def convertEnvVars_def
  Deployment_IsReady_def Service_IsReady_def HttpRoute_IsReady_def GetConditionType_def
  addCondition_def newCondition_def WithMessage_def response_Fatal_def InternalErrorResponse_def
  SetDesiredComposedResources_def Wrapf_def Let_def

lemma From_value:
  "ComposeDesiredResourceFrom from b obj rsp = (rsp', Inr (Some dr)) \<Longrightarrow>
   from obj = Inr (Resource (DesiredResource_Resource dr))"
  by (cases obj) (auto simp: ComposeDesiredResourceFrom_def split: if_splits sum.splits)

lemma Compose_value:
  assumes "ComposeDesiredResource cv r rsp = (log, rsp', Inr (Some dr))"
  shows "composed_From cv (builtObject r) = Inr (Resource (DesiredResource_Resource dr))"
  using assms
  by (cases r;
      auto simp: Deployment_ComposeDesiredResource_def Service_ComposeDesiredResource_def
        HttpRoute_ComposeDesiredResource_def split: prod.splits dest!: From_value)

lemma composeEach_entry:
  "composeEach cv rs st = Inr st' \<Longrightarrow> distinct (map resourceNameOf rs) \<Longrightarrow>
   r \<in> set rs \<Longrightarrow> builds r \<Longrightarrow>
   \<exists>c. composed_From cv (builtObject r) = Inr c \<and>
       frame_desired st' (resourceNameOf r) =
         Some \<lparr>Resource = c, Ready = if IsReady r then ReadyTrue else ReadyFalse\<rparr>"
proof (induction rs arbitrary: st)
  case Nil
  then show ?case by simp
next
  case (Cons q rs)
  obtain log rsp' res where c: "ComposeDesiredResource cv q (frame_rsp st) = (log, rsp', res)"
    by (metis prod_cases3)
  have dist: "distinct (map resourceNameOf rs)" and fresh: "resourceNameOf q \<notin> resourceNameOf ` set rs"
    using Cons.prems(2) by simp_all
  show ?case
  proof (cases res)
    case (Inl err)
    with c Cons.prems(1) show ?thesis by simp
  next
    case (Inr x)
    show ?thesis
    proof (cases x)
      case None
      with c Inr have a: "ComposeDesiredResource cv q (frame_rsp st) = (log, rsp', Inr None)" by simp
      from Compose_ok(2) [OF a] have "\<not> builds q" by simp
      with Cons.prems(3,4) have rin: "r \<in> set rs" by auto
      from Cons.prems(1) composeEach_Cons_absent [OF a]
      have "composeEach cv rs (st\<lparr>frame_log := frame_log st @ log\<rparr>) = Inr st'" by simp
      from Cons.IH [OF this dist rin Cons.prems(4)] show ?thesis .
    next
      case (Some dr)
      with c Inr have a: "ComposeDesiredResource cv q (frame_rsp st) = (log, rsp', Inr (Some dr))"
        by simp
      define v where "v = (DesiredResource_Resource dr)\<lparr>Ready := if IsReady q then ReadyTrue else ReadyFalse\<rparr>"
      define st1 where "st1 = \<lparr>frame_rsp =
        addCondition
          (if IsReady q then newCondition (conditionTypeOf q) ''Available'' StatusTrue
           else WithMessage (conditionTypeOf q @ '' is not yet available'')
                  (newCondition (conditionTypeOf q) ''Unavailable'' StatusFalse))
          (frame_rsp st),
         frame_desired = (frame_desired st)(resourceNameOf q \<mapsto> v),
         frame_log = frame_log st @ log @ [Info ''Added desired resource'' [(''name'', resourceNameOf q)]]\<rparr>"
      from Cons.prems(1) composeEach_Cons_built [OF a]
      have step: "composeEach cv rs st1 = Inr st'" by (simp add: st1_def v_def)
      show ?thesis
      proof (cases "r = q")
        case True
        have "resourceNameOf q \<notin> resourceNameOf ` {p \<in> set rs. builds p}"
          using fresh by auto
        with composeEach_ok [OF step]
        have "frame_desired st' (resourceNameOf q) = frame_desired st1 (resourceNameOf q)" by blast
        then have e: "frame_desired st' (resourceNameOf q) = Some v" by (simp add: st1_def)
        have "v = \<lparr>Resource = Resource (DesiredResource_Resource dr),
                  Ready = if IsReady q then ReadyTrue else ReadyFalse\<rparr>"
          by (simp add: v_def)
        with e Compose_value [OF a] True show ?thesis by simp
      next
        case False
        with Cons.prems(3) have rin: "r \<in> set rs" by simp
        from Cons.IH [OF step dist rin Cons.prems(4)] show ?thesis .
      qed
    qed
  qed
qed

lemma names_distinct:
  "''xdeployment-deployment-'' @ n \<noteq> ''xdeployment-service-'' @ n"
  "''xdeployment-deployment-'' @ n \<noteq> ''xdeployment-httproute-'' @ n"
  "''xdeployment-service-'' @ n \<noteq> ''xdeployment-httproute-'' @ n"
  by simp_all

text \<open>
  What a response without fatal result holds, entry by entry: shared by the properties
  of the desired set and of the ready flag.
\<close>

lemma RunFunction_entries:
  assumes dec: "GetInput req = Inr dv" "GetObservedComposedResources req = Inr obs"
    "GetDesiredComposedResources req = Inr des" "GetObservedCompositeResource req = Inr xr"
    "toXDeployment cv xr = Inr xd"
    and ok: "ret_rsp (RunFunction cv req) = Some r" "Results r = []"
    and names: "dn = ''xdeployment-deployment-'' @ Name xd" "sn = ''xdeployment-service-'' @ Name xd"
      "hn = ''xdeployment-httproute-'' @ Name xd"
    and pre: "servicePre \<longleftrightarrow> Port (Spec xd) \<noteq> None"
      "routePre \<longleftrightarrow> Port (Spec xd) \<noteq> None \<and> Hostname (Spec xd) \<noteq> [] \<and> Gateway dv \<noteq> None"
  shows "\<exists>d s h m.
       NewDeployment cv \<lparr>Observed = obs, XR = xd, Defaults = Some dv\<rparr> = Inr d
     \<and> NewService cv \<lparr>Observed = obs, XR = xd, Defaults = Some dv\<rparr> = Inr s
     \<and> NewHttpRoute cv \<lparr>Observed = obs, XR = xd, Defaults = Some dv\<rparr> = Inr h
     \<and> Desired r = Composed m
     \<and> (\<exists>c. composed_From cv (DeploymentObject (snd (Deployment_createResource d))) = Inr c \<and>
            m dn = Some \<lparr>Resource = c,
                          Ready = if Deployment_IsReady d then ReadyTrue else ReadyFalse\<rparr>)
     \<and> (servicePre \<longrightarrow>
          (\<exists>c. composed_From cv (ServiceObject (snd (Service_createResource s))) = Inr c \<and>
             m sn = Some \<lparr>Resource = c,
                           Ready = if Service_IsReady s then ReadyTrue else ReadyFalse\<rparr>))
     \<and> (routePre \<longrightarrow>
          (\<exists>c. composed_From cv (HTTPRouteObject (snd (HttpRoute_createResource h))) = Inr c \<and>
             m hn = Some \<lparr>Resource = c,
                           Ready = if HttpRoute_IsReady h then ReadyTrue else ReadyFalse\<rparr>))
     \<and> (\<not> servicePre \<longrightarrow> m sn = des sn)
     \<and> (\<not> routePre \<longrightarrow> m hn = des hn)
     \<and> (\<forall>n. n \<notin> {dn, sn, hn} \<longrightarrow> m n = des n)
     \<and> map Type (Conditions r) =
         ''DeploymentReady'' # (if servicePre then [''ServiceReady''] else []) @
         (if routePre then [''HttpRouteReady''] else [])"
proof -
  let ?ctx = "\<lparr>Observed = obs, XR = xd, Defaults = Some dv\<rparr>"
  from RunFunction_success [OF dec ok] obtain d s h st where
    d: "NewDeployment cv ?ctx = Inr d" and s: "NewService cv ?ctx = Inr s"
    and h: "NewHttpRoute cv ?ctx = Inr h"
    and st: "composeEach cv [DeploymentComposer d, ServiceComposer s, HttpRouteComposer h]
        \<lparr>frame_rsp = response_To req, frame_desired = des,
         frame_log = [Info ''Running function'' [(''tag'', Meta_Tag req)]]\<rparr> = Inr st"
    and r: "r = (frame_rsp st)\<lparr>Desired := Composed (frame_desired st)\<rparr>"
    by blast
  let ?rs = "[DeploymentComposer d, ServiceComposer s, HttpRouteComposer h]"
  note nd = NewDeployment_ok [OF d] and ns = NewService_ok [OF s] and nh = NewHttpRoute_ok [OF h]
  have bd: "builds (DeploymentComposer d)" by (simp add: builds_Deployment)
  have bs: "builds (ServiceComposer s) \<longleftrightarrow> servicePre"
    using ns pre builds_Service [of s] by simp
  have bh: "builds (HttpRouteComposer h) \<longleftrightarrow> routePre"
    using nh pre builds_HttpRoute [of h] by simp
  have rn: "resourceNameOf (DeploymentComposer d) = dn" "resourceNameOf (ServiceComposer s) = sn"
    "resourceNameOf (HttpRouteComposer h) = hn"
    using nd ns nh names by simp_all
  have ct: "conditionTypeOf (DeploymentComposer d) = ''DeploymentReady''"
    "conditionTypeOf (ServiceComposer s) = ''ServiceReady''"
    "conditionTypeOf (HttpRouteComposer h) = ''HttpRouteReady''"
    using nd ns nh by (simp_all add: GetConditionType_def)
  have ne: "dn \<noteq> sn" "dn \<noteq> hn" "sn \<noteq> hn" using names by simp_all
  have dist: "distinct (map resourceNameOf ?rs)" using rn ne by simp
  let ?B = "{dn} \<union> (if servicePre then {sn} else {}) \<union> (if routePre then {hn} else {})"
  have B: "resourceNameOf ` {q \<in> set ?rs. builds q} = ?B"
  proof -
    have "{q \<in> set ?rs. builds q} =
        {DeploymentComposer d} \<union> (if servicePre then {ServiceComposer s} else {}) \<union>
        (if routePre then {HttpRouteComposer h} else {})"
      using bd bs bh by auto
    then show ?thesis using rn by (simp add: image_Un)
  qed
  have F: "map conditionTypeOf (filter builds ?rs) =
      ''DeploymentReady'' # (if servicePre then [''ServiceReady''] else []) @
         (if routePre then [''HttpRouteReady''] else [])"
    using bd bs bh ct by simp
  note L = composeEach_ok [OF st]
  let ?m = "frame_desired st"
  have keep: "?m n = des n" if "n \<notin> ?B" for n using L B that by simp
  have c1: "Desired r = Composed ?m" using r by simp
  have e1: "\<exists>c. composed_From cv (DeploymentObject (snd (Deployment_createResource d))) = Inr c \<and>
            ?m dn = Some \<lparr>Resource = c,
                          Ready = if Deployment_IsReady d then ReadyTrue else ReadyFalse\<rparr>"
    using composeEach_entry [OF st dist, of "DeploymentComposer d"] bd rn by simp
  have e2: "servicePre \<longrightarrow>
          (\<exists>c. composed_From cv (ServiceObject (snd (Service_createResource s))) = Inr c \<and>
             ?m sn = Some \<lparr>Resource = c,
                           Ready = if Service_IsReady s then ReadyTrue else ReadyFalse\<rparr>)"
    using composeEach_entry [OF st dist, of "ServiceComposer s"] bs rn by simp
  have e3: "routePre \<longrightarrow>
          (\<exists>c. composed_From cv (HTTPRouteObject (snd (HttpRoute_createResource h))) = Inr c \<and>
             ?m hn = Some \<lparr>Resource = c,
                           Ready = if HttpRoute_IsReady h then ReadyTrue else ReadyFalse\<rparr>)"
    using composeEach_entry [OF st dist, of "HttpRouteComposer h"] bh rn by simp
  have c5: "\<not> servicePre \<longrightarrow> ?m sn = des sn" using keep [of sn] ne by simp
  have c6: "\<not> routePre \<longrightarrow> ?m hn = des hn" using keep [of hn] ne by simp
  have c7: "\<forall>n. n \<notin> {dn, sn, hn} \<longrightarrow> ?m n = des n" using keep by simp
  have c8: "map Type (Conditions r) =
         ''DeploymentReady'' # (if servicePre then [''ServiceReady''] else []) @
         (if routePre then [''HttpRouteReady''] else [])"
    using L F r by (simp add: response_To_def)
  show ?thesis
    by (intro exI [of _ d] exI [of _ s] exI [of _ h] exI [of _ "frame_desired st"] conjI
        d s h c1 e1 e2 e3 c5 c6 c7 c8)
qed

text \<open>
  C1 (as amended). For every invocation whose request decodes, that returns a response and
  reports no fatal result (so no composer failed and the desired resources were
  serialised), the composed resources of the response are the desired resources of the
  request with one entry written for each kind whose precondition holds: the deployment
  always, the service when the port is set, the route when the port is set, the hostname
  is not empty and the defaults carry a gateway. The entry written under the name of a
  kind is the object that kind built, converted by \<open>composed.From\<close>, with its ready flag;
  it replaces an entry the request had under that name. So the entry of a kind is there
  exactly when its precondition holds or the request already had an entry of that name; a
  kind that is absent leaves the entry of its name as the request had it and emits no
  condition; all other entries are passed through. The conditions are, in order, those of
  the kinds built. With the port unset only the deployment entry is written and the one
  condition is DeploymentReady.
\<close>

theorem RunFunction_desired_entries:
  assumes dec: "GetInput req = Inr dv" "GetObservedComposedResources req = Inr obs"
    "GetDesiredComposedResources req = Inr des" "GetObservedCompositeResource req = Inr xr"
    "toXDeployment cv xr = Inr xd"
    and ok: "ret_rsp (RunFunction cv req) = Some r" "Results r = []"
    and names: "dn = ''xdeployment-deployment-'' @ Name xd" "sn = ''xdeployment-service-'' @ Name xd"
      "hn = ''xdeployment-httproute-'' @ Name xd"
    and pre: "servicePre \<longleftrightarrow> Port (Spec xd) \<noteq> None"
      "routePre \<longleftrightarrow> Port (Spec xd) \<noteq> None \<and> Hostname (Spec xd) \<noteq> [] \<and> Gateway dv \<noteq> None"
  shows "\<exists>d s h m.
       NewDeployment cv \<lparr>Observed = obs, XR = xd, Defaults = Some dv\<rparr> = Inr d
     \<and> NewService cv \<lparr>Observed = obs, XR = xd, Defaults = Some dv\<rparr> = Inr s
     \<and> NewHttpRoute cv \<lparr>Observed = obs, XR = xd, Defaults = Some dv\<rparr> = Inr h
     \<and> Desired r = Composed m
     \<and> (\<exists>c. composed_From cv (DeploymentObject (snd (Deployment_createResource d))) = Inr c \<and>
            m dn = Some \<lparr>Resource = c,
                          Ready = if Deployment_IsReady d then ReadyTrue else ReadyFalse\<rparr>)
     \<and> (servicePre \<longrightarrow>
          (\<exists>c. composed_From cv (ServiceObject (snd (Service_createResource s))) = Inr c \<and>
             m sn = Some \<lparr>Resource = c,
                           Ready = if Service_IsReady s then ReadyTrue else ReadyFalse\<rparr>))
     \<and> (routePre \<longrightarrow>
          (\<exists>c. composed_From cv (HTTPRouteObject (snd (HttpRoute_createResource h))) = Inr c \<and>
             m hn = Some \<lparr>Resource = c,
                           Ready = if HttpRoute_IsReady h then ReadyTrue else ReadyFalse\<rparr>))
     \<and> (\<not> servicePre \<longrightarrow> m sn = des sn)
     \<and> (\<not> routePre \<longrightarrow> m hn = des hn)
     \<and> (\<forall>n. n \<notin> {dn, sn, hn} \<longrightarrow> m n = des n)
     \<and> map Type (Conditions r) =
         ''DeploymentReady'' # (if servicePre then [''ServiceReady''] else []) @
         (if routePre then [''HttpRouteReady''] else [])
     \<and> dn \<in> dom m
     \<and> (sn \<in> dom m \<longleftrightarrow> servicePre \<or> sn \<in> dom des)
     \<and> (hn \<in> dom m \<longleftrightarrow> routePre \<or> hn \<in> dom des)
     \<and> (Port (Spec xd) = None \<longrightarrow>
          dom m = insert dn (dom des) \<and> map Type (Conditions r) = [''DeploymentReady''])"
proof -
  from RunFunction_entries [OF dec ok names pre] show ?thesis
  proof (elim exE)
    fix d s h m
    assume A: "NewDeployment cv \<lparr>Observed = obs, XR = xd, Defaults = Some dv\<rparr> = Inr d
     \<and> NewService cv \<lparr>Observed = obs, XR = xd, Defaults = Some dv\<rparr> = Inr s
     \<and> NewHttpRoute cv \<lparr>Observed = obs, XR = xd, Defaults = Some dv\<rparr> = Inr h
     \<and> Desired r = Composed m
     \<and> (\<exists>c. composed_From cv (DeploymentObject (snd (Deployment_createResource d))) = Inr c \<and>
            m dn = Some \<lparr>Resource = c,
                          Ready = if Deployment_IsReady d then ReadyTrue else ReadyFalse\<rparr>)
     \<and> (servicePre \<longrightarrow>
          (\<exists>c. composed_From cv (ServiceObject (snd (Service_createResource s))) = Inr c \<and>
             m sn = Some \<lparr>Resource = c,
                           Ready = if Service_IsReady s then ReadyTrue else ReadyFalse\<rparr>))
     \<and> (routePre \<longrightarrow>
          (\<exists>c. composed_From cv (HTTPRouteObject (snd (HttpRoute_createResource h))) = Inr c \<and>
             m hn = Some \<lparr>Resource = c,
                           Ready = if HttpRoute_IsReady h then ReadyTrue else ReadyFalse\<rparr>))
     \<and> (\<not> servicePre \<longrightarrow> m sn = des sn)
     \<and> (\<not> routePre \<longrightarrow> m hn = des hn)
     \<and> (\<forall>n. n \<notin> {dn, sn, hn} \<longrightarrow> m n = des n)
     \<and> map Type (Conditions r) =
         ''DeploymentReady'' # (if servicePre then [''ServiceReady''] else []) @
         (if routePre then [''HttpRouteReady''] else [])"
    note d = A [THEN conjunct1]
    note A2 = A [THEN conjunct2]
    note s = A2 [THEN conjunct1]
    note A3 = A2 [THEN conjunct2]
    note h = A3 [THEN conjunct1]
    note A4 = A3 [THEN conjunct2]
    note c1 = A4 [THEN conjunct1]
    note A5 = A4 [THEN conjunct2]
    note e1 = A5 [THEN conjunct1]
    note A6 = A5 [THEN conjunct2]
    note e2 = A6 [THEN conjunct1]
    note A7 = A6 [THEN conjunct2]
    note e3 = A7 [THEN conjunct1]
    note A8 = A7 [THEN conjunct2]
    note c5 = A8 [THEN conjunct1]
    note A9 = A8 [THEN conjunct2]
    note c6 = A9 [THEN conjunct1]
    note A10 = A9 [THEN conjunct2]
    note c7 = A10 [THEN conjunct1]
    note c8 = A10 [THEN conjunct2]
    have a1: "dn \<in> dom m" using e1 by (elim exE conjE) (rule domI)
    have a2: "sn \<in> dom m \<longleftrightarrow> servicePre \<or> sn \<in> dom des"
    proof (cases servicePre)
      case True
      with e2 have "sn \<in> dom m" by (auto intro: domI)
      with True show ?thesis by simp
    next
      case False
      with c5 have "m sn = des sn" by simp
      with False show ?thesis by (simp add: dom_def)
    qed
    have a3: "hn \<in> dom m \<longleftrightarrow> routePre \<or> hn \<in> dom des"
    proof (cases routePre)
      case True
      with e3 have "hn \<in> dom m" by (auto intro: domI)
      with True show ?thesis by simp
    next
      case False
      with c6 have "m hn = des hn" by simp
      with False show ?thesis by (simp add: dom_def)
    qed
    have a4: "Port (Spec xd) = None \<longrightarrow>
          dom m = insert dn (dom des) \<and> map Type (Conditions r) = [''DeploymentReady'']"
    proof
      assume p: "Port (Spec xd) = None"
      with pre have np: "\<not> servicePre" "\<not> routePre" by simp_all
      have "n \<in> dom m \<longleftrightarrow> n = dn \<or> n \<in> dom des" for n
      proof (cases "n \<in> {dn, sn, hn}")
        case False
        with c7 have "m n = des n" by blast
        with False show ?thesis by (simp add: dom_def)
      next
        case True
        then consider "n = dn" | "n = sn" | "n = hn" by blast
        then show ?thesis
        proof cases
          case 1 with a1 show ?thesis by simp
        next
          case 2 with a2 np a1 show ?thesis by auto
        next
          case 3 with a3 np a1 show ?thesis by auto
        qed
      qed
      then have "dom m = insert dn (dom des)" by blast
      moreover from c8 np have "map Type (Conditions r) = [''DeploymentReady'']" by simp
      ultimately show "dom m = insert dn (dom des) \<and> map Type (Conditions r) = [''DeploymentReady'']"
        by (rule conjI)
    qed
    show ?thesis
      by (intro exI [of _ d] exI [of _ s] exI [of _ h] exI [of _ m] conjI
          d s h c1 e1 e2 e3 c5 c6 c7 c8 a1 a2 a3 a4)
  qed
qed

theorem RunFunction_desired_entries_witness:
  "GetInput (testRequest testApp Map.empty
       [''xdeployment-deployment-test-app'' \<mapsto> \<lparr>Resource = NilObject, Ready = ReadyTrue\<rparr>]) = Inr testDefaults
   \<and> GetDesiredComposedResources (testRequest testApp Map.empty
       [''xdeployment-deployment-test-app'' \<mapsto> \<lparr>Resource = NilObject, Ready = ReadyTrue\<rparr>]) =
       Inr [''xdeployment-deployment-test-app'' \<mapsto> \<lparr>Resource = NilObject, Ready = ReadyTrue\<rparr>]
   \<and> ret_rsp (RunFunction typedConverters (testRequest testApp Map.empty
       [''xdeployment-deployment-test-app'' \<mapsto> \<lparr>Resource = NilObject, Ready = ReadyTrue\<rparr>])) \<noteq> None
   \<and> Results (the (ret_rsp (RunFunction typedConverters (testRequest testApp Map.empty
       [''xdeployment-deployment-test-app'' \<mapsto> \<lparr>Resource = NilObject, Ready = ReadyTrue\<rparr>])))) = []
   \<and> Port (Spec testApp) \<noteq> None \<and> Hostname (Spec testApp) \<noteq> [] \<and> Gateway testDefaults \<noteq> None
   \<and> (\<exists>m c. Desired (the (ret_rsp (RunFunction typedConverters (testRequest testApp Map.empty
            [''xdeployment-deployment-test-app'' \<mapsto> \<lparr>Resource = NilObject, Ready = ReadyTrue\<rparr>]))))
            = Composed m
          \<and> m (''xdeployment-deployment-'' @ Name testApp) = Some \<lparr>Resource = c, Ready = ReadyFalse\<rparr>
          \<and> c \<noteq> NilObject
          \<and> ''xdeployment-service-'' @ Name testApp \<in> dom m
          \<and> ''xdeployment-httproute-'' @ Name testApp \<in> dom m)
   \<and> map Type (Conditions (the (ret_rsp (RunFunction typedConverters (testRequest testApp Map.empty
          [''xdeployment-deployment-test-app'' \<mapsto> \<lparr>Resource = NilObject, Ready = ReadyTrue\<rparr>]))))) =
       [''DeploymentReady'', ''ServiceReady'', ''HttpRouteReady'']"
proof -
  let ?des = "[''xdeployment-deployment-test-app'' \<mapsto> \<lparr>Resource = NilObject, Ready = ReadyTrue\<rparr>]"
  let ?req = "testRequest testApp Map.empty ?des"
  let ?r = "the (ret_rsp (RunFunction typedConverters ?req))"
  have h1: "GetInput ?req = Inr testDefaults"
    and h2: "GetObservedComposedResources ?req = Inr Map.empty"
    and h3: "GetDesiredComposedResources ?req = Inr ?des"
    and h4: "GetObservedCompositeResource ?req = Inr testApp"
    and h5: "toXDeployment typedConverters testApp = Inr testApp"
    by (simp_all add: testRequest_def typedConverters_def)
  have h6: "ret_rsp (RunFunction typedConverters ?req) \<noteq> None" by (simp add: eval_defs)
  then have h6': "ret_rsp (RunFunction typedConverters ?req) = Some ?r" by simp
  have h7: "Results ?r = []" by (simp add: eval_defs)
  have q: "Port (Spec testApp) \<noteq> None" "Hostname (Spec testApp) \<noteq> []" "Gateway testDefaults \<noteq> None"
    by (simp_all add: testApp_def testDefaults_def)
  have p1: "True \<longleftrightarrow> Port (Spec testApp) \<noteq> None"
    and p2: "True \<longleftrightarrow> Port (Spec testApp) \<noteq> None \<and> Hostname (Spec testApp) \<noteq> [] \<and>
        Gateway testDefaults \<noteq> None"
    using q by (simp_all only: simp_thms)
  note T = RunFunction_desired_entries [OF h1 h2 h3 h4 h5 h6' h7 refl refl refl p1 p2]
  from T have e: "\<exists>m c. Desired ?r = Composed m
          \<and> m (''xdeployment-deployment-'' @ Name testApp) = Some \<lparr>Resource = c, Ready = ReadyFalse\<rparr>
          \<and> c \<noteq> NilObject
          \<and> ''xdeployment-service-'' @ Name testApp \<in> dom m
          \<and> ''xdeployment-httproute-'' @ Name testApp \<in> dom m"
  proof (elim exE conjE)
    fix d s h m c
    assume A: "Desired ?r = Composed m"
      and d: "NewDeployment typedConverters \<lparr>Observed = Map.empty, XR = testApp, Defaults = Some testDefaults\<rparr> = Inr d"
      and f: "composed_From typedConverters (DeploymentObject (snd (Deployment_createResource d))) = Inr c"
      and B: "m (''xdeployment-deployment-'' @ Name testApp) =
              Some \<lparr>Resource = c, Ready = if Deployment_IsReady d then ReadyTrue else ReadyFalse\<rparr>"
      and C: "(''xdeployment-service-'' @ Name testApp \<in> dom m) =
              (True \<or> ''xdeployment-service-'' @ Name testApp \<in> dom ?des)"
      and D: "(''xdeployment-httproute-'' @ Name testApp \<in> dom m) =
              (True \<or> ''xdeployment-httproute-'' @ Name testApp \<in> dom ?des)"
    from d have "Deployment_ObservedResource d = None"
      by (auto simp: NewDeployment_def ConvertObserved_def Let_def)
    then have nr: "\<not> Deployment_IsReady d" by (simp add: Deployment_IsReady_def)
    from B nr have B': "m (''xdeployment-deployment-'' @ Name testApp) =
              Some \<lparr>Resource = c, Ready = ReadyFalse\<rparr>" by simp
    from f have c: "c \<noteq> NilObject" by (auto simp: typedConverters_def)
    from C have C': "''xdeployment-service-'' @ Name testApp \<in> dom m" by (simp only: simp_thms)
    from D have D': "''xdeployment-httproute-'' @ Name testApp \<in> dom m" by (simp only: simp_thms)
    show ?thesis by (intro exI [of _ m] exI [of _ c] conjI A B' c C' D')
  qed
  from T have c: "map Type (Conditions ?r) = [''DeploymentReady'', ''ServiceReady'', ''HttpRouteReady'']"
  proof (elim exE conjE)
    fix m
    assume "map Type (Conditions ?r) =
         ''DeploymentReady'' # (if True then [''ServiceReady''] else []) @
         (if True then [''HttpRouteReady''] else [])"
    then show ?thesis by (simp only: if_True append.simps)
  qed
  show ?thesis by (intro conjI h1 h3 h6 h7 q e c)
qed

text \<open>
  The claim as stated fails on a request that already carries a desired resource under the
  service's name: with the port unset the response still holds that entry.
\<close>

theorem RunFunction_desired_entries_counterexample:
  "Port (Spec (testApp\<lparr>Spec := (Spec testApp)\<lparr>Port := None\<rparr>\<rparr>)) = None \<and>
   (case ret_rsp (RunFunction typedConverters
            (testRequest (testApp\<lparr>Spec := (Spec testApp)\<lparr>Port := None\<rparr>\<rparr>) Map.empty
               [''xdeployment-service-test-app'' \<mapsto> \<lparr>Resource = NilObject, Ready = ReadyTrue\<rparr>])) of
      None \<Rightarrow> ([\<lparr>Severity = Fatal, Result_Message = ''no response''\<rparr>], None)
    | Some r \<Rightarrow>
        (Results r,
         case Desired r of
           Composed m \<Rightarrow> m ''xdeployment-service-test-app''
         | _ \<Rightarrow> None)) =
   ([], Some \<lparr>Resource = NilObject, Ready = ReadyTrue\<rparr>)"
  by (simp add: eval_defs)

section \<open>The precondition of the route\<close>

lemma HttpRoute_absent_log:
  "snd (HttpRoute_createResource h) = None \<Longrightarrow>
   fst (HttpRoute_createResource h) = [Debug ''no default values found'' [(''name'', ResourceName h)]] \<or>
   fst (HttpRoute_createResource h) =
     [Debug ''no port or hostname specifed, skipping httpRoute'' [(''name'', ResourceName h)]]"
  by (cases "Defaults (FunctionContext h)"; cases "Gateway (the (Defaults (FunctionContext h)))")
     (simp_all add: HttpRoute_createResource_def Let_def split: if_splits)

text \<open>
  C3 (as amended). The route composer builds an HTTPRoute exactly when the port is set,
  the hostname is not empty and the defaults are there with a gateway entry; the
  gateway's name and namespace are copied into the parent reference and are not checked.
  When a precondition is missing, nothing is built, one line is logged at debug level,
  and composing returns no resource and no error, the response untouched.
\<close>

theorem HttpRoute_createResource_iff:
  "(snd (HttpRoute_createResource h) \<noteq> None \<longleftrightarrow>
      Port (Spec (XR (FunctionContext h))) \<noteq> None \<and>
      Hostname (Spec (XR (FunctionContext h))) \<noteq> [] \<and>
      (\<exists>dv gw. Defaults (FunctionContext h) = Some dv \<and> Gateway dv = Some gw))
   \<and> (snd (HttpRoute_createResource h) = None \<longrightarrow>
        (\<exists>msg. fst (HttpRoute_createResource h) = [Debug msg [(''name'', ResourceName h)]]) \<and>
        HttpRoute_ComposeDesiredResource cv h rsp = (fst (HttpRoute_createResource h), rsp, Inr None))
   \<and> (\<forall>dv gw p. Defaults (FunctionContext h) = Some dv \<and> Gateway dv = Some gw \<and>
          Port (Spec (XR (FunctionContext h))) = Some p \<and> Hostname (Spec (XR (FunctionContext h))) \<noteq> [] \<longrightarrow>
        (\<exists>rt. snd (HttpRoute_createResource h) = Some rt \<and>
           rt_ParentRefs rt =
             [\<lparr>ParentRef_Name = Gateway_Name gw, ParentRef_Namespace = Some (Gateway_Namespace gw)\<rparr>] \<and>
           rt_Hostnames rt = [Hostname (Spec (XR (FunctionContext h)))]))"
proof (intro conjI impI allI)
  show "snd (HttpRoute_createResource h) \<noteq> None \<longleftrightarrow>
      Port (Spec (XR (FunctionContext h))) \<noteq> None \<and>
      Hostname (Spec (XR (FunctionContext h))) \<noteq> [] \<and>
      (\<exists>dv gw. Defaults (FunctionContext h) = Some dv \<and> Gateway dv = Some gw)"
    by (rule builds_HttpRoute)
next
  assume a: "snd (HttpRoute_createResource h) = None"
  from HttpRoute_absent_log [OF a]
  show "\<exists>msg. fst (HttpRoute_createResource h) = [Debug msg [(''name'', ResourceName h)]]"
    by (elim disjE) (rule exI, assumption)+
  show "HttpRoute_ComposeDesiredResource cv h rsp = (fst (HttpRoute_createResource h), rsp, Inr None)"
  proof -
    obtain lg where "HttpRoute_createResource h = (lg, None)"
      using a by (cases "HttpRoute_createResource h") simp
    then show ?thesis
      by (simp add: HttpRoute_ComposeDesiredResource_def ComposeDesiredResourceFrom_def)
  qed
next
  fix dv gw p
  assume "Defaults (FunctionContext h) = Some dv \<and> Gateway dv = Some gw \<and>
          Port (Spec (XR (FunctionContext h))) = Some p \<and> Hostname (Spec (XR (FunctionContext h))) \<noteq> []"
  then show "\<exists>rt. snd (HttpRoute_createResource h) = Some rt \<and>
           rt_ParentRefs rt =
             [\<lparr>ParentRef_Name = Gateway_Name gw, ParentRef_Namespace = Some (Gateway_Namespace gw)\<rparr>] \<and>
           rt_Hostnames rt = [Hostname (Spec (XR (FunctionContext h)))]"
    by (simp add: HttpRoute_createResource_def Let_def)
qed

theorem HttpRoute_createResource_iff_witness:
  "snd (HttpRoute_createResource (testRoute None)) = None
   \<and> fst (HttpRoute_createResource (testRoute None)) =
       [Debug ''no default values found'' [(''name'', ''xdeployment-httproute-test-app'')]]
   \<and> HttpRoute_ComposeDesiredResource typedConverters (testRoute None)
         \<lparr>Tag = ''test'', Desired = FromRequest, Conditions = [], Results = []\<rparr> =
       (fst (HttpRoute_createResource (testRoute None)),
        \<lparr>Tag = ''test'', Desired = FromRequest, Conditions = [], Results = []\<rparr>, Inr None)
   \<and> Defaults (FunctionContext (testRoute (Some testDefaults))) = Some testDefaults
   \<and> Gateway testDefaults = Some \<lparr>Gateway_Name = ''my-gateway'', Gateway_Namespace = ''gateway-ns''\<rparr>
   \<and> Port (Spec (XR (FunctionContext (testRoute (Some testDefaults))))) = Some 8080
   \<and> Hostname (Spec (XR (FunctionContext (testRoute (Some testDefaults))))) \<noteq> []
   \<and> (\<exists>rt. snd (HttpRoute_createResource (testRoute (Some testDefaults))) = Some rt \<and>
          rt_ParentRefs rt =
            [\<lparr>ParentRef_Name = Gateway_Name \<lparr>Gateway_Name = ''my-gateway'', Gateway_Namespace = ''gateway-ns''\<rparr>,
              ParentRef_Namespace =
                Some (Gateway_Namespace \<lparr>Gateway_Name = ''my-gateway'', Gateway_Namespace = ''gateway-ns''\<rparr>)\<rparr>] \<and>
          rt_Hostnames rt = [Hostname (Spec (XR (FunctionContext (testRoute (Some testDefaults)))))])"
proof -
  let ?rsp = "\<lparr>Tag = ''test'', Desired = FromRequest, Conditions = [], Results = []\<rparr> :: runtime_Object RunFunctionResponse"
  note T1 = HttpRoute_createResource_iff [of "testRoute None" typedConverters ?rsp]
  note T2 = HttpRoute_createResource_iff [of "testRoute (Some testDefaults)" typedConverters ?rsp]
  have a: "snd (HttpRoute_createResource (testRoute None)) = None"
    by (simp add: HttpRoute_createResource_def testRoute_def)
  have l: "fst (HttpRoute_createResource (testRoute None)) =
       [Debug ''no default values found'' [(''name'', ''xdeployment-httproute-test-app'')]]"
    by (simp add: HttpRoute_createResource_def testRoute_def)
  from T1 a have c: "HttpRoute_ComposeDesiredResource typedConverters (testRoute None) ?rsp =
       (fst (HttpRoute_createResource (testRoute None)), ?rsp, Inr None)"
    by (elim conjE) (drule (1) mp, elim conjE, assumption)
  have b: "Defaults (FunctionContext (testRoute (Some testDefaults))) = Some testDefaults"
    "Gateway testDefaults = Some \<lparr>Gateway_Name = ''my-gateway'', Gateway_Namespace = ''gateway-ns''\<rparr>"
    "Port (Spec (XR (FunctionContext (testRoute (Some testDefaults))))) = Some 8080"
    "Hostname (Spec (XR (FunctionContext (testRoute (Some testDefaults))))) \<noteq> []"
    by (simp_all add: testRoute_def testDefaults_def testApp_def)
  from T2 have "\<forall>dv gw p. Defaults (FunctionContext (testRoute (Some testDefaults))) = Some dv \<and>
          Gateway dv = Some gw \<and>
          Port (Spec (XR (FunctionContext (testRoute (Some testDefaults))))) = Some p \<and>
          Hostname (Spec (XR (FunctionContext (testRoute (Some testDefaults))))) \<noteq> [] \<longrightarrow>
        (\<exists>rt. snd (HttpRoute_createResource (testRoute (Some testDefaults))) = Some rt \<and>
           rt_ParentRefs rt =
             [\<lparr>ParentRef_Name = Gateway_Name gw, ParentRef_Namespace = Some (Gateway_Namespace gw)\<rparr>] \<and>
           rt_Hostnames rt = [Hostname (Spec (XR (FunctionContext (testRoute (Some testDefaults)))))])"
    by (elim conjE)
  from this [rule_format, OF conjI [OF b(1) conjI [OF b(2) conjI [OF b(3) b(4)]]]]
  have r: "\<exists>rt. snd (HttpRoute_createResource (testRoute (Some testDefaults))) = Some rt \<and>
          rt_ParentRefs rt =
            [\<lparr>ParentRef_Name = Gateway_Name \<lparr>Gateway_Name = ''my-gateway'', Gateway_Namespace = ''gateway-ns''\<rparr>,
              ParentRef_Namespace =
                Some (Gateway_Namespace \<lparr>Gateway_Name = ''my-gateway'', Gateway_Namespace = ''gateway-ns''\<rparr>)\<rparr>] \<and>
          rt_Hostnames rt = [Hostname (Spec (XR (FunctionContext (testRoute (Some testDefaults)))))]" .
  show ?thesis by (intro conjI a l c b r)
qed

text \<open>
  The claim as stated fails on a gateway entry whose name and namespace are empty: the
  route is built, with an empty parent reference.
\<close>

theorem HttpRoute_createResource_iff_counterexample:
  "snd (HttpRoute_createResource
          (testRoute (Some \<lparr>Gateway = Some \<lparr>Gateway_Name = [], Gateway_Namespace = []\<rparr>\<rparr>))) =
   Some \<lparr>rt_Name = ''test-app'',
         rt_ParentRefs = [\<lparr>ParentRef_Name = [], ParentRef_Namespace = Some []\<rparr>],
         rt_Hostnames = [''test.example.com''],
         rt_Rules = [\<lparr>Rule_BackendRefs = [\<lparr>BackendRef_Name = ''test-app'', BackendRef_Port = Some 8080\<rparr>]\<rparr>],
         rt_StatusParents = []\<rparr>"
  by (simp add: HttpRoute_createResource_def testRoute_def testApp_def)

section \<open>The ready flag\<close>

lemma NewDeployment_observed:
  "NewDeployment cv f = Inr d \<Longrightarrow>
   ConvertObserved (toDeployment cv) (Observed f) (''xdeployment-deployment-'' @ Name (XR f)) =
     Inr (Deployment_ObservedResource d)"
  by (auto simp: NewDeployment_def Let_def split: sum.splits)

lemma NewService_observed:
  "NewService cv f = Inr s \<Longrightarrow>
   ConvertObserved (toService cv) (Observed f) (''xdeployment-service-'' @ Name (XR f)) =
     Inr (Service_ObservedResource s)"
  by (auto simp: NewService_def Let_def split: sum.splits)

lemma NewHttpRoute_observed:
  "NewHttpRoute cv f = Inr h \<Longrightarrow>
   ConvertObserved (toHTTPRoute cv) (Observed f) (''xdeployment-httproute-'' @ Name (XR f)) =
     Inr (HttpRoute_ObservedResource h)"
  by (auto simp: NewHttpRoute_def Let_def split: sum.splits)

lemma flag_of_entry:
  assumes "\<exists>c. from obj = Inr c \<and> m n = Some \<lparr>Resource = c, Ready = if ready then ReadyTrue else ReadyFalse\<rparr>"
  shows "\<exists>dc. m n = Some dc \<and> (Ready dc = ReadyTrue \<longleftrightarrow> ready) \<and> (Ready dc = ReadyFalse \<longleftrightarrow> \<not> ready)"
  using assms by (cases ready) auto

text \<open>
  C7. Whatever \<open>ComposeDesiredResourceFrom\<close> wraps has its ready flag set to false. In
  the response of an invocation without fatal result, the entry of each kind that was
  built has the flag true exactly when that composer's \<open>IsReady\<close> holds, and false
  otherwise, whatever the body \<open>composed.From\<close> produced; and each composer reads, for
  \<open>IsReady\<close>, the object observed under its own name in the request.
\<close>

theorem ready_flag_set_by_handler:
  assumes dec: "GetInput req = Inr dv" "GetObservedComposedResources req = Inr obs"
    "GetDesiredComposedResources req = Inr des" "GetObservedCompositeResource req = Inr xr"
    "toXDeployment cv xr = Inr xd"
    and ok: "ret_rsp (RunFunction cv req) = Some r" "Results r = []"
    and names: "dn = ''xdeployment-deployment-'' @ Name xd" "sn = ''xdeployment-service-'' @ Name xd"
      "hn = ''xdeployment-httproute-'' @ Name xd"
    and pre: "servicePre \<longleftrightarrow> Port (Spec xd) \<noteq> None"
      "routePre \<longleftrightarrow> Port (Spec xd) \<noteq> None \<and> Hostname (Spec xd) \<noteq> [] \<and> Gateway dv \<noteq> None"
  shows "(\<forall>from b obj rsp0 rsp' dr.
            ComposeDesiredResourceFrom from b obj rsp0 = (rsp', Inr (Some dr)) \<longrightarrow>
            Ready (DesiredResource_Resource dr) = ReadyFalse)
     \<and> (\<exists>d s h m.
           NewDeployment cv \<lparr>Observed = obs, XR = xd, Defaults = Some dv\<rparr> = Inr d
         \<and> NewService cv \<lparr>Observed = obs, XR = xd, Defaults = Some dv\<rparr> = Inr s
         \<and> NewHttpRoute cv \<lparr>Observed = obs, XR = xd, Defaults = Some dv\<rparr> = Inr h
         \<and> ConvertObserved (toDeployment cv) obs dn = Inr (Deployment_ObservedResource d)
         \<and> ConvertObserved (toService cv) obs sn = Inr (Service_ObservedResource s)
         \<and> ConvertObserved (toHTTPRoute cv) obs hn = Inr (HttpRoute_ObservedResource h)
         \<and> Desired r = Composed m
         \<and> (\<exists>dc. m dn = Some dc \<and> (Ready dc = ReadyTrue \<longleftrightarrow> Deployment_IsReady d) \<and>
                  (Ready dc = ReadyFalse \<longleftrightarrow> \<not> Deployment_IsReady d))
         \<and> (servicePre \<longrightarrow>
              (\<exists>dc. m sn = Some dc \<and> (Ready dc = ReadyTrue \<longleftrightarrow> Service_IsReady s) \<and>
                  (Ready dc = ReadyFalse \<longleftrightarrow> \<not> Service_IsReady s)))
         \<and> (routePre \<longrightarrow>
              (\<exists>dc. m hn = Some dc \<and> (Ready dc = ReadyTrue \<longleftrightarrow> HttpRoute_IsReady h) \<and>
                  (Ready dc = ReadyFalse \<longleftrightarrow> \<not> HttpRoute_IsReady h))))"
proof (rule conjI)
  show "\<forall>from b obj rsp0 rsp' dr.
            ComposeDesiredResourceFrom from b obj rsp0 = (rsp', Inr (Some dr)) \<longrightarrow>
            Ready (DesiredResource_Resource dr) = ReadyFalse"
    by (intro allI impI) (drule From_ok, simp)
next
  from RunFunction_entries [OF dec ok names pre]
  obtain d s h m where
    A: "NewDeployment cv \<lparr>Observed = obs, XR = xd, Defaults = Some dv\<rparr> = Inr d
     \<and> NewService cv \<lparr>Observed = obs, XR = xd, Defaults = Some dv\<rparr> = Inr s
     \<and> NewHttpRoute cv \<lparr>Observed = obs, XR = xd, Defaults = Some dv\<rparr> = Inr h
     \<and> Desired r = Composed m
     \<and> (\<exists>c. composed_From cv (DeploymentObject (snd (Deployment_createResource d))) = Inr c \<and>
            m dn = Some \<lparr>Resource = c,
                          Ready = if Deployment_IsReady d then ReadyTrue else ReadyFalse\<rparr>)
     \<and> (servicePre \<longrightarrow>
          (\<exists>c. composed_From cv (ServiceObject (snd (Service_createResource s))) = Inr c \<and>
             m sn = Some \<lparr>Resource = c,
                           Ready = if Service_IsReady s then ReadyTrue else ReadyFalse\<rparr>))
     \<and> (routePre \<longrightarrow>
          (\<exists>c. composed_From cv (HTTPRouteObject (snd (HttpRoute_createResource h))) = Inr c \<and>
             m hn = Some \<lparr>Resource = c,
                           Ready = if HttpRoute_IsReady h then ReadyTrue else ReadyFalse\<rparr>))
     \<and> (\<not> servicePre \<longrightarrow> m sn = des sn)
     \<and> (\<not> routePre \<longrightarrow> m hn = des hn)
     \<and> (\<forall>n. n \<notin> {dn, sn, hn} \<longrightarrow> m n = des n)
     \<and> map Type (Conditions r) =
         ''DeploymentReady'' # (if servicePre then [''ServiceReady''] else []) @
         (if routePre then [''HttpRouteReady''] else [])"
    by (elim exE) (rule that)
  note d = A [THEN conjunct1]
  note A2 = A [THEN conjunct2]
  note s = A2 [THEN conjunct1]
  note A3 = A2 [THEN conjunct2]
  note h = A3 [THEN conjunct1]
  note A4 = A3 [THEN conjunct2]
  note c1 = A4 [THEN conjunct1]
  note A5 = A4 [THEN conjunct2]
  note e1 = A5 [THEN conjunct1]
  note A6 = A5 [THEN conjunct2]
  note e2 = A6 [THEN conjunct1]
  note A7 = A6 [THEN conjunct2]
  note e3 = A7 [THEN conjunct1]
  have od: "ConvertObserved (toDeployment cv) obs dn = Inr (Deployment_ObservedResource d)"
    using NewDeployment_observed [OF d] names by simp
  have os: "ConvertObserved (toService cv) obs sn = Inr (Service_ObservedResource s)"
    using NewService_observed [OF s] names by simp
  have oh: "ConvertObserved (toHTTPRoute cv) obs hn = Inr (HttpRoute_ObservedResource h)"
    using NewHttpRoute_observed [OF h] names by simp
  have f1: "\<exists>dc. m dn = Some dc \<and> (Ready dc = ReadyTrue \<longleftrightarrow> Deployment_IsReady d) \<and>
                  (Ready dc = ReadyFalse \<longleftrightarrow> \<not> Deployment_IsReady d)"
    using e1 by (rule flag_of_entry)
  have f2: "servicePre \<longrightarrow>
              (\<exists>dc. m sn = Some dc \<and> (Ready dc = ReadyTrue \<longleftrightarrow> Service_IsReady s) \<and>
                  (Ready dc = ReadyFalse \<longleftrightarrow> \<not> Service_IsReady s))"
  proof
    assume servicePre
    with e2 show "\<exists>dc. m sn = Some dc \<and> (Ready dc = ReadyTrue \<longleftrightarrow> Service_IsReady s) \<and>
                  (Ready dc = ReadyFalse \<longleftrightarrow> \<not> Service_IsReady s)"
      by (intro flag_of_entry) (rule mp)
  qed
  have f3: "routePre \<longrightarrow>
              (\<exists>dc. m hn = Some dc \<and> (Ready dc = ReadyTrue \<longleftrightarrow> HttpRoute_IsReady h) \<and>
                  (Ready dc = ReadyFalse \<longleftrightarrow> \<not> HttpRoute_IsReady h))"
  proof
    assume routePre
    with e3 show "\<exists>dc. m hn = Some dc \<and> (Ready dc = ReadyTrue \<longleftrightarrow> HttpRoute_IsReady h) \<and>
                  (Ready dc = ReadyFalse \<longleftrightarrow> \<not> HttpRoute_IsReady h)"
      by (intro flag_of_entry) (rule mp)
  qed
  show "\<exists>d s h m.
           NewDeployment cv \<lparr>Observed = obs, XR = xd, Defaults = Some dv\<rparr> = Inr d
         \<and> NewService cv \<lparr>Observed = obs, XR = xd, Defaults = Some dv\<rparr> = Inr s
         \<and> NewHttpRoute cv \<lparr>Observed = obs, XR = xd, Defaults = Some dv\<rparr> = Inr h
         \<and> ConvertObserved (toDeployment cv) obs dn = Inr (Deployment_ObservedResource d)
         \<and> ConvertObserved (toService cv) obs sn = Inr (Service_ObservedResource s)
         \<and> ConvertObserved (toHTTPRoute cv) obs hn = Inr (HttpRoute_ObservedResource h)
         \<and> Desired r = Composed m
         \<and> (\<exists>dc. m dn = Some dc \<and> (Ready dc = ReadyTrue \<longleftrightarrow> Deployment_IsReady d) \<and>
                  (Ready dc = ReadyFalse \<longleftrightarrow> \<not> Deployment_IsReady d))
         \<and> (servicePre \<longrightarrow>
              (\<exists>dc. m sn = Some dc \<and> (Ready dc = ReadyTrue \<longleftrightarrow> Service_IsReady s) \<and>
                  (Ready dc = ReadyFalse \<longleftrightarrow> \<not> Service_IsReady s)))
         \<and> (routePre \<longrightarrow>
              (\<exists>dc. m hn = Some dc \<and> (Ready dc = ReadyTrue \<longleftrightarrow> HttpRoute_IsReady h) \<and>
                  (Ready dc = ReadyFalse \<longleftrightarrow> \<not> HttpRoute_IsReady h)))"
    by (intro exI [of _ d] exI [of _ s] exI [of _ h] exI [of _ m] conjI
        d s h od os oh c1 f1 f2 f3)
qed

theorem ready_flag_set_by_handler_witness:
  "GetObservedComposedResources
       (testRequest testApp [''xdeployment-deployment-test-app'' \<mapsto> availableDeployment] Map.empty) =
     Inr [''xdeployment-deployment-test-app'' \<mapsto> availableDeployment]
   \<and> ret_rsp (RunFunction typedConverters
         (testRequest testApp [''xdeployment-deployment-test-app'' \<mapsto> availableDeployment] Map.empty)) \<noteq> None
   \<and> Results (the (ret_rsp (RunFunction typedConverters
         (testRequest testApp [''xdeployment-deployment-test-app'' \<mapsto> availableDeployment] Map.empty)))) = []
   \<and> (\<exists>m dc ds.
         Desired (the (ret_rsp (RunFunction typedConverters
           (testRequest testApp [''xdeployment-deployment-test-app'' \<mapsto> availableDeployment] Map.empty))))
           = Composed m
       \<and> m (''xdeployment-deployment-'' @ Name testApp) = Some dc \<and> Ready dc = ReadyTrue
       \<and> m (''xdeployment-service-'' @ Name testApp) = Some ds \<and> Ready ds = ReadyFalse)"
proof -
  let ?obs = "[''xdeployment-deployment-test-app'' \<mapsto> availableDeployment]"
  let ?req = "testRequest testApp ?obs Map.empty"
  let ?r = "the (ret_rsp (RunFunction typedConverters ?req))"
  have h1: "GetInput ?req = Inr testDefaults"
    and h2: "GetObservedComposedResources ?req = Inr ?obs"
    and h3: "GetDesiredComposedResources ?req = Inr Map.empty"
    and h4: "GetObservedCompositeResource ?req = Inr testApp"
    and h5: "toXDeployment typedConverters testApp = Inr testApp"
    by (simp_all add: testRequest_def typedConverters_def)
  have h6: "ret_rsp (RunFunction typedConverters ?req) \<noteq> None"
    by (simp add: eval_defs availableDeployment_def)
  then have h6': "ret_rsp (RunFunction typedConverters ?req) = Some ?r" by simp
  have h7: "Results ?r = []" by (simp add: eval_defs availableDeployment_def)
  have p1: "True \<longleftrightarrow> Port (Spec testApp) \<noteq> None"
    and p2: "True \<longleftrightarrow> Port (Spec testApp) \<noteq> None \<and> Hostname (Spec testApp) \<noteq> [] \<and>
        Gateway testDefaults \<noteq> None"
    by (simp_all add: testApp_def testDefaults_def)
  note T = ready_flag_set_by_handler [OF h1 h2 h3 h4 h5 h6' h7 refl refl refl p1 p2, THEN conjunct2]
  from T have e: "\<exists>m dc ds. Desired ?r = Composed m
       \<and> m (''xdeployment-deployment-'' @ Name testApp) = Some dc \<and> Ready dc = ReadyTrue
       \<and> m (''xdeployment-service-'' @ Name testApp) = Some ds \<and> Ready ds = ReadyFalse"
  proof (elim exE conjE)
    fix d s h m dc
    assume A: "Desired ?r = Composed m"
      and d: "NewDeployment typedConverters \<lparr>Observed = ?obs, XR = testApp, Defaults = Some testDefaults\<rparr> = Inr d"
      and s: "NewService typedConverters \<lparr>Observed = ?obs, XR = testApp, Defaults = Some testDefaults\<rparr> = Inr s"
      and B1: "m (''xdeployment-deployment-'' @ Name testApp) = Some dc"
      and B2: "(Ready dc = ReadyTrue) = Deployment_IsReady d"
      and F: "True \<longrightarrow>
              (\<exists>dc. m (''xdeployment-service-'' @ Name testApp) = Some dc \<and>
                  (Ready dc = ReadyTrue \<longleftrightarrow> Service_IsReady s) \<and>
                  (Ready dc = ReadyFalse \<longleftrightarrow> \<not> Service_IsReady s))"
    from d have "Deployment_IsReady d"
      by (auto simp: NewDeployment_def ConvertObserved_def Let_def typedConverters_def
          Deployment_IsReady_def testApp_def availableDeployment_def)
    with B2 have B3: "Ready dc = ReadyTrue" by simp
    from s have ns: "\<not> Service_IsReady s"
      by (auto simp: NewService_def ConvertObserved_def Let_def typedConverters_def
          Service_IsReady_def testApp_def)
    from F obtain ds where C1: "m (''xdeployment-service-'' @ Name testApp) = Some ds"
      and C2: "Ready ds = ReadyFalse \<longleftrightarrow> \<not> Service_IsReady s" by blast
    from C2 ns have C3: "Ready ds = ReadyFalse" by simp
    show ?thesis by (intro exI [of _ m] exI [of _ dc] exI [of _ ds] conjI A B1 B3 C1 C3)
  qed
  show ?thesis by (intro conjI h2 h6 h7 e)
qed

section \<open>Observed objects that cannot be decoded\<close>

lemma NewDeployment_err:
  "NewDeployment cv f = Inl e \<longleftrightarrow>
   ConvertObserved (toDeployment cv) (Observed f) (''xdeployment-deployment-'' @ Name (XR f)) = Inl e"
  by (simp add: NewDeployment_def Let_def split: sum.split)

lemma NewService_err:
  "NewService cv f = Inl e \<longleftrightarrow>
   ConvertObserved (toService cv) (Observed f) (''xdeployment-service-'' @ Name (XR f)) = Inl e"
  by (simp add: NewService_def Let_def split: sum.split)

lemma NewHttpRoute_err:
  "NewHttpRoute cv f = Inl e \<longleftrightarrow>
   ConvertObserved (toHTTPRoute cv) (Observed f) (''xdeployment-httproute-'' @ Name (XR f)) = Inl e"
  by (simp add: NewHttpRoute_def Let_def split: sum.split)

lemma ConvertObserved_None:
  "observed resourceName = None \<Longrightarrow> ConvertObserved conv observed resourceName = Inr None"
  by (simp add: ConvertObserved_def)

lemma ConvertObserved_Inl:
  "ConvertObserved conv observed resourceName = Inl err \<longleftrightarrow>
   (\<exists>obs. observed resourceName = Some obs \<and> conv obs = Inl err)"
  by (simp add: ConvertObserved_def split: option.split sum.split)

lemma RunFunction_constructor_error:
  assumes dec: "GetInput req = Inr dv" "GetObservedComposedResources req = Inr obs"
    "GetDesiredComposedResources req = Inr des" "GetObservedCompositeResource req = Inr xr"
    "toXDeployment cv xr = Inr xd"
    and err: "NewDeployment cv \<lparr>Observed = obs, XR = xd, Defaults = Some dv\<rparr> = Inl e \<or>
      NewService cv \<lparr>Observed = obs, XR = xd, Defaults = Some dv\<rparr> = Inl e \<or>
      NewHttpRoute cv \<lparr>Observed = obs, XR = xd, Defaults = Some dv\<rparr> = Inl e"
  shows "\<exists>msg. RunFunction cv req =
      \<lparr>ret_rsp = Some \<lparr>Tag = Meta_Tag req, Desired = FromRequest, Conditions = [],
                         Results = [\<lparr>Severity = Fatal, Result_Message = msg\<rparr>]\<rparr>,
       ret_err = None, ret_log = [Info ''Running function'' [(''tag'', Meta_Tag req)]]\<rparr>"
proof -
  let ?ctx = "\<lparr>Observed = obs, XR = xd, Defaults = Some dv\<rparr>"
  show ?thesis
  proof (cases "NewDeployment cv ?ctx")
    case (Inl e1)
    with dec show ?thesis
      by (simp add: RunFunction_def Let_def response_Fatal_def response_To_def)
  next
    case d: (Inr d)
    show ?thesis
    proof (cases "NewService cv ?ctx")
      case (Inl e2)
      with dec d show ?thesis
        by (simp add: RunFunction_def Let_def response_Fatal_def response_To_def)
    next
      case s: (Inr s)
      with err d obtain e3 where "NewHttpRoute cv ?ctx = Inl e3" by auto
      with dec d s show ?thesis
        by (simp add: RunFunction_def Let_def response_Fatal_def response_To_def)
    qed
  qed
qed

text \<open>
  C6. \<open>ConvertObserved\<close> returns no object and no error when nothing is observed under
  the name, and returns an error exactly when an object is observed under the name and
  its conversion fails, with that error. A constructor fails exactly when its
  \<open>ConvertObserved\<close> does. When a constructor fails, the handler returns at once: the
  response carries the fatal result and nothing else, no condition, and the desired state
  of the request untouched; no composer has run.
\<close>

theorem ConvertObserved_and_constructor_errors:
  "(observed resourceName = None \<longrightarrow> ConvertObserved conv observed resourceName = Inr None)
   \<and> (ConvertObserved conv observed resourceName = Inl err \<longleftrightarrow>
        (\<exists>obs. observed resourceName = Some obs \<and> conv obs = Inl err))
   \<and> (NewDeployment cv f = Inl e \<longleftrightarrow>
        ConvertObserved (toDeployment cv) (Observed f) (''xdeployment-deployment-'' @ Name (XR f)) = Inl e)
   \<and> (NewService cv f = Inl e \<longleftrightarrow>
        ConvertObserved (toService cv) (Observed f) (''xdeployment-service-'' @ Name (XR f)) = Inl e)
   \<and> (NewHttpRoute cv f = Inl e \<longleftrightarrow>
        ConvertObserved (toHTTPRoute cv) (Observed f) (''xdeployment-httproute-'' @ Name (XR f)) = Inl e)
   \<and> (GetInput req = Inr dv \<and> GetObservedComposedResources req = Inr obs \<and>
       GetDesiredComposedResources req = Inr des \<and> GetObservedCompositeResource req = Inr xr \<and>
       toXDeployment cv xr = Inr xd \<and>
       (NewDeployment cv \<lparr>Observed = obs, XR = xd, Defaults = Some dv\<rparr> = Inl e \<or>
        NewService cv \<lparr>Observed = obs, XR = xd, Defaults = Some dv\<rparr> = Inl e \<or>
        NewHttpRoute cv \<lparr>Observed = obs, XR = xd, Defaults = Some dv\<rparr> = Inl e) \<longrightarrow>
       (\<exists>msg. RunFunction cv req =
          \<lparr>ret_rsp = Some \<lparr>Tag = Meta_Tag req, Desired = FromRequest, Conditions = [],
                             Results = [\<lparr>Severity = Fatal, Result_Message = msg\<rparr>]\<rparr>,
           ret_err = None, ret_log = [Info ''Running function'' [(''tag'', Meta_Tag req)]]\<rparr>))"
proof (intro conjI impI)
  show "ConvertObserved conv observed resourceName = Inr None" if "observed resourceName = None"
    using that by (rule ConvertObserved_None)
  show "ConvertObserved conv observed resourceName = Inl err \<longleftrightarrow>
        (\<exists>obs. observed resourceName = Some obs \<and> conv obs = Inl err)"
    by (rule ConvertObserved_Inl)
  show "NewDeployment cv f = Inl e \<longleftrightarrow>
        ConvertObserved (toDeployment cv) (Observed f) (''xdeployment-deployment-'' @ Name (XR f)) = Inl e"
    by (rule NewDeployment_err)
  show "NewService cv f = Inl e \<longleftrightarrow>
        ConvertObserved (toService cv) (Observed f) (''xdeployment-service-'' @ Name (XR f)) = Inl e"
    by (rule NewService_err)
  show "NewHttpRoute cv f = Inl e \<longleftrightarrow>
        ConvertObserved (toHTTPRoute cv) (Observed f) (''xdeployment-httproute-'' @ Name (XR f)) = Inl e"
    by (rule NewHttpRoute_err)
next
  assume a: "GetInput req = Inr dv \<and> GetObservedComposedResources req = Inr obs \<and>
       GetDesiredComposedResources req = Inr des \<and> GetObservedCompositeResource req = Inr xr \<and>
       toXDeployment cv xr = Inr xd \<and>
       (NewDeployment cv \<lparr>Observed = obs, XR = xd, Defaults = Some dv\<rparr> = Inl e \<or>
        NewService cv \<lparr>Observed = obs, XR = xd, Defaults = Some dv\<rparr> = Inl e \<or>
        NewHttpRoute cv \<lparr>Observed = obs, XR = xd, Defaults = Some dv\<rparr> = Inl e)"
  then show "\<exists>msg. RunFunction cv req =
          \<lparr>ret_rsp = Some \<lparr>Tag = Meta_Tag req, Desired = FromRequest, Conditions = [],
                             Results = [\<lparr>Severity = Fatal, Result_Message = msg\<rparr>]\<rparr>,
           ret_err = None, ret_log = [Info ''Running function'' [(''tag'', Meta_Tag req)]]\<rparr>"
    by (elim conjE) (rule RunFunction_constructor_error)
qed

theorem ConvertObserved_and_constructor_errors_witness:
  "ConvertObserved (toDeployment typedConverters) Map.empty ''xdeployment-deployment-test-app'' = Inr None
   \<and> ConvertObserved (toDeployment typedConverters)
         [''xdeployment-deployment-test-app'' \<mapsto> WrongFieldType ''spec.replicas is not a number'']
         ''xdeployment-deployment-test-app'' = Inl ''spec.replicas is not a number''
   \<and> NewDeployment typedConverters
         \<lparr>Observed = [''xdeployment-deployment-test-app'' \<mapsto> WrongFieldType ''spec.replicas is not a number''],
          XR = testApp, Defaults = Some testDefaults\<rparr> = Inl ''spec.replicas is not a number''
   \<and> (\<exists>msg. RunFunction typedConverters
         (testRequest testApp [''xdeployment-deployment-test-app'' \<mapsto> WrongFieldType ''spec.replicas is not a number''] Map.empty) =
          \<lparr>ret_rsp = Some \<lparr>Tag = Meta_Tag (testRequest testApp
                                   [''xdeployment-deployment-test-app'' \<mapsto> WrongFieldType ''spec.replicas is not a number''] Map.empty),
                             Desired = FromRequest, Conditions = [],
                             Results = [\<lparr>Severity = Fatal, Result_Message = msg\<rparr>]\<rparr>,
           ret_err = None,
           ret_log = [Info ''Running function''
                        [(''tag'', Meta_Tag (testRequest testApp
                            [''xdeployment-deployment-test-app'' \<mapsto> WrongFieldType ''spec.replicas is not a number''] Map.empty))]]\<rparr>)"
proof -
  let ?obs = "[''xdeployment-deployment-test-app'' \<mapsto> WrongFieldType ''spec.replicas is not a number'']"
  let ?req = "testRequest testApp ?obs Map.empty"
  let ?ctx = "\<lparr>Observed = ?obs, XR = testApp, Defaults = Some testDefaults\<rparr>"
  note T0 = ConvertObserved_and_constructor_errors
    [where observed = "Map.empty :: string \<rightharpoonup> unstructured"
       and resourceName = "''xdeployment-deployment-test-app''"
       and conv = "toDeployment typedConverters", THEN conjunct1, THEN mp, OF refl]
  note T = ConvertObserved_and_constructor_errors
    [where observed = ?obs and resourceName = "''xdeployment-deployment-test-app''"
       and conv = "toDeployment typedConverters" and err = "''spec.replicas is not a number''"
       and cv = typedConverters and f = ?ctx and e = "''spec.replicas is not a number''" and req = ?req
       and dv = testDefaults and obs = ?obs and des = Map.empty and xr = testApp and xd = testApp]
  have a: "\<exists>u. ?obs ''xdeployment-deployment-test-app'' = Some u \<and>
             toDeployment typedConverters u = Inl ''spec.replicas is not a number''"
    by (simp add: typedConverters_def)
  from T a have b: "ConvertObserved (toDeployment typedConverters) ?obs
      ''xdeployment-deployment-test-app'' = Inl ''spec.replicas is not a number''"
    by (elim conjE) (simp only:)
  have n: "''xdeployment-deployment-'' @ Name (XR ?ctx) = ''xdeployment-deployment-test-app''"
    by (simp add: testApp_def)
  have o: "Observed ?ctx = ?obs" by simp
  from T b have c: "NewDeployment typedConverters ?ctx = Inl ''spec.replicas is not a number''"
    by (elim conjE) (simp only: n o)
  have h: "GetInput ?req = Inr testDefaults \<and> GetObservedComposedResources ?req = Inr ?obs \<and>
       GetDesiredComposedResources ?req = Inr Map.empty \<and> GetObservedCompositeResource ?req = Inr testApp \<and>
       toXDeployment typedConverters testApp = Inr testApp"
    by (simp add: testRequest_def typedConverters_def)
  from T h c have d: "\<exists>msg. RunFunction typedConverters ?req =
          \<lparr>ret_rsp = Some \<lparr>Tag = Meta_Tag ?req, Desired = FromRequest, Conditions = [],
                             Results = [\<lparr>Severity = Fatal, Result_Message = msg\<rparr>]\<rparr>,
           ret_err = None, ret_log = [Info ''Running function'' [(''tag'', Meta_Tag ?req)]]\<rparr>"
    by (elim conjE) (erule mp, intro conjI disjI1, assumption+)
  show ?thesis by (intro conjI T0 b c d)
qed

section \<open>Fatal failures\<close>









end
